theory Spec2Isabelle
  imports Complex_Main
begin

section \<open>Geopedia import tasks: data model\<close>

text \<open>
  The development follows \<^verbatim>\<open>extra-tasks/geopedia/geopedia.py\<close>: the raster importer
  \<^verbatim>\<open>AddGeopediaFeatureTask\<close> and the vector importer \<^verbatim>\<open>GeopediaVectorImportTask\<close>.

  Numbers. Image samples of a decoded tile are unsigned (PNG and JPG decode to unsigned
  integer arrays), so a sample is a \<^typ>\<open>nat\<close>. Labels, the no-data value and reference
  colours are Python integers, \<^typ>\<open>int\<close>. The output arrays have the configured
  \<^verbatim>\<open>raster_dtype\<close>, an integer type: a label or no-data value outside its range cannot
  be stored, and NumPy raises \<^verbatim>\<open>OverflowError\<close> where the Python integer meets the array
  (NumPy 2; earlier versions wrap the value or widen the array instead).
  \<^verbatim>\<open>request_data - intensities\<close> subtracts a Python list from an unsigned array: NumPy
  converts the list to a 64-bit signed array first, so the difference is the integer
  difference. \<^verbatim>\<open>np.mean\<close> adds the absolute differences in double precision and divides
  by their number: the sum is exact while it is below \<open>2 ^ 53\<close>, which the theorems
  assume, and the quotient is rounded to the nearest double. Doubles and the tolerance
  are kept as the rationals they are.

  Exceptions are values of \<open>error\<close>; every function that can raise returns \<open>error + 'a\<close>.
  Python raises \<^verbatim>\<open>ValueError\<close> with different messages for most of them; the constructors
  keep them apart.
\<close>

datatype error =
    MissingPrerequisiteLayerError
      \<comment> \<open>\<^verbatim>\<open>KeyError\<close> of \<^verbatim>\<open>eopatch[FeatureType.MASK]["IS_DATA"]\<close>\<close>
  | MissingBoundingRegionError
      \<comment> \<open>\<^verbatim>\<open>ValueError\<close>: "Bbox has to be defined!", "... eopatch.bbox has to be defined!"\<close>
  | UnexpectedResponseError
      \<comment> \<open>\<^verbatim>\<open>ValueError\<close> of the unpacking \<^verbatim>\<open>(request_data,) = ...\<close>\<close>
  | UnsupportedConfigurationError
      \<comment> \<open>\<^verbatim>\<open>ValueError\<close>: "Unsupported raster value type"\<close>
  | EmptyDatasetError
      \<comment> \<open>\<^verbatim>\<open>ValueError\<close>: "... does not contain geometries!"\<close>
  | CrsMismatchError
      \<comment> \<open>\<^verbatim>\<open>ValueError\<close>: "To clip, vectors should be in same CRS as EOPatch bbox!"\<close>
  | IndexError
      \<comment> \<open>an index out of range, a Boolean index of the wrong shape or of too many dimensions\<close>
  | ShapeError
      \<comment> \<open>\<^verbatim>\<open>ValueError\<close> of NumPy broadcasting or of unpacking a shape tuple\<close>
  | LayerTypeError
      \<comment> \<open>a layer that does not hold an array where the raster importer reads one\<close>
  | OverflowError
      \<comment> \<open>a Python integer out of bounds for the type of the array it is stored in\<close>
  | FeatureDimensionError
      \<comment> \<open>\<^verbatim>\<open>ValueError\<close> of \<^verbatim>\<open>EOPatch\<close>: the array assigned to a layer has not the number of
         dimensions of the category\<close>

subsection \<open>Arrays\<close>

text \<open>
  A NumPy array is its shape and its cells in row-major order. A tile is an array of
  shape (height, width, channels), kept as one sample list per pixel.
\<close>

record 'a ndarray =
  shape :: "nat list"
  cells :: "'a list"

record tile =
  t_height :: nat
  t_width :: nat
  t_channels :: nat
  t_pixels :: "nat list list"

definition tile_ok :: "tile \<Rightarrow> bool" where
  "tile_ok t = (length (t_pixels t) = t_height t * t_width t
                \<and> list_all (\<lambda>px. length px = t_channels t) (t_pixels t))"

definition ndim :: "'a ndarray \<Rightarrow> nat" where
  "ndim a = length (shape a)"

definition np_full :: "nat list \<Rightarrow> 'a \<Rightarrow> 'a ndarray" where
  \<comment> \<open>\<^verbatim>\<open>np.ones(dst_shape, dtype=...) * v\<close>\<close>
  "np_full shp v = \<lparr>shape = shp, cells = replicate (prod_list shp) v\<rparr>"

definition squeeze :: "'a ndarray \<Rightarrow> 'a ndarray" where
  \<comment> \<open>\<^verbatim>\<open>a.squeeze()\<close> drops every axis of length one; the cells stay in order\<close>
  "squeeze a = a\<lparr>shape := filter (\<lambda>d. d \<noteq> 1) (shape a)\<rparr>"

definition newaxis_last :: "'a ndarray \<Rightarrow> 'a ndarray" where
  \<comment> \<open>\<^verbatim>\<open>a[..., np.newaxis]\<close>\<close>
  "newaxis_last a = a\<lparr>shape := shape a @ [1]\<rparr>"

text \<open>
  The integer types an output array can have, with the range of each. \<^verbatim>\<open>np.ones(shape,
  dtype=...) * v\<close> with a Python integer \<open>v\<close> keeps the type of the array and raises when
  \<open>v\<close> is outside it.
\<close>

datatype dtype = UInt8 | Int8 | UInt16 | Int16 | UInt32 | Int32 | UInt64 | Int64

fun dtype_min :: "dtype \<Rightarrow> int" where
  "dtype_min UInt8 = 0"
| "dtype_min Int8 = - (2 ^ 7)"
| "dtype_min UInt16 = 0"
| "dtype_min Int16 = - (2 ^ 15)"
| "dtype_min UInt32 = 0"
| "dtype_min Int32 = - (2 ^ 31)"
| "dtype_min UInt64 = 0"
| "dtype_min Int64 = - (2 ^ 63)"

fun dtype_max :: "dtype \<Rightarrow> int" where
  "dtype_max UInt8 = 2 ^ 8 - 1"
| "dtype_max Int8 = 2 ^ 7 - 1"
| "dtype_max UInt16 = 2 ^ 16 - 1"
| "dtype_max Int16 = 2 ^ 15 - 1"
| "dtype_max UInt32 = 2 ^ 32 - 1"
| "dtype_max Int32 = 2 ^ 31 - 1"
| "dtype_max UInt64 = 2 ^ 64 - 1"
| "dtype_max Int64 = 2 ^ 63 - 1"

definition in_dtype :: "dtype \<Rightarrow> int \<Rightarrow> bool" where
  "in_dtype d v = (dtype_min d \<le> v \<and> v \<le> dtype_max d)"

definition np_ones_times :: "dtype \<Rightarrow> nat list \<Rightarrow> int \<Rightarrow> error + int ndarray" where
  \<comment> \<open>\<^verbatim>\<open>np.ones(dst_shape, dtype=self.raster_dtype) * self.no_data_val\<close>\<close>
  "np_ones_times d shp v = (if in_dtype d v then Inr (np_full shp v) else Inl OverflowError)"

subsection \<open>Double precision\<close>

text \<open>
  The double nearest to a rational \<open>x\<close> with \<open>0 \<le> x < 2 ^ 1024\<close>, ties to the even
  significand: with \<open>e\<close> the exponent of \<open>x\<close>, not below that of the smallest normal
  double, the doubles around \<open>x\<close> are the multiples of \<open>2 powi (e - 52)\<close>.
\<close>

definition round_half_even :: "rat \<Rightarrow> int" where
  "round_half_even q =
     (let f = \<lfloor>q\<rfloor>; d = q - of_int f
      in if d < 1 / 2 then f else if 1 / 2 < d then f + 1 else if even f then f else f + 1)"

definition f64_emin :: int where
  "f64_emin = - 1022"

definition f64_emax :: int where
  "f64_emax = 1023"

definition f64_exponent :: "rat \<Rightarrow> int" where
  "f64_exponent x =
     (case filter (\<lambda>e. 2 powi e \<le> x) [f64_emin..f64_emax] of
        [] \<Rightarrow> f64_emin
      | es \<Rightarrow> last es)"

definition float64_round :: "rat \<Rightarrow> rat" where
  "float64_round x =
     (let u = 2 powi (f64_exponent x - 52) in of_int (round_half_even (x / u)) * u)"

subsection \<open>Bounding regions, layers and patches\<close>

text \<open>
  \<^verbatim>\<open>FeatureType\<close>, \<^verbatim>\<open>EOPatch\<close>, \<^verbatim>\<open>BBox\<close> and \<^verbatim>\<open>CRS\<close> are declared in the libraries
  \<^verbatim>\<open>eolearn.core\<close> and \<^verbatim>\<open>sentinelhub\<close>, which the module imports. The categories are
  the members of \<^verbatim>\<open>eolearn.core.FeatureType\<close> that hold layers: the source names
  \<^verbatim>\<open>MASK\<close> and \<^verbatim>\<open>MASK_TIMELESS\<close> and asks \<^verbatim>\<open>is_vector()\<close> of a category. A patch is the
  container the tasks use it as: an optional bounding region and a mapping from
  (category, name) to an array or a data frame. When an array is assigned to a layer,
  \<^verbatim>\<open>EOPatch\<close> checks its number of dimensions against the category
  (\<^verbatim>\<open>FeatureType.ndim()\<close>) and raises \<^verbatim>\<open>ValueError\<close> when they differ or when the category
  holds no array. The vector task can only be built with a vector category, for which a
  data frame is accepted. Two layers never share their cells.
\<close>

datatype FeatureType =
    DATA | MASK | SCALAR | LABEL | VECTOR
  | DATA_TIMELESS | MASK_TIMELESS | SCALAR_TIMELESS | LABEL_TIMELESS | VECTOR_TIMELESS

definition is_vector :: "FeatureType \<Rightarrow> bool" where
  "is_vector ft = (ft = VECTOR \<or> ft = VECTOR_TIMELESS)"

fun feature_ndim :: "FeatureType \<Rightarrow> nat option" where
  \<comment> \<open>\<^verbatim>\<open>FeatureType.ndim()\<close>\<close>
  "feature_ndim DATA = Some 4"
| "feature_ndim MASK = Some 4"
| "feature_ndim SCALAR = Some 2"
| "feature_ndim LABEL = Some 2"
| "feature_ndim DATA_TIMELESS = Some 3"
| "feature_ndim MASK_TIMELESS = Some 3"
| "feature_ndim SCALAR_TIMELESS = Some 1"
| "feature_ndim LABEL_TIMELESS = Some 1"
| "feature_ndim VECTOR = None"
| "feature_ndim VECTOR_TIMELESS = None"

definition is_timeless_raster :: "FeatureType \<Rightarrow> bool" where
  \<comment> \<open>the time-independent categories that hold a raster on the spatial grid\<close>
  "is_timeless_raster ft = (ft = DATA_TIMELESS \<or> ft = MASK_TIMELESS)"

datatype CRS = EPSG nat

definition POP_WEB :: CRS where
  "POP_WEB = EPSG 3857"

record BBox =
  min_x :: rat
  min_y :: rat
  max_x :: rat
  max_y :: rat
  crs :: CRS

text \<open>
  A geometry is kept as its vertices, of which it has at least one; that is what its
  extent depends on. A fetched feature is a GeoJSON record whose geometry, when present,
  names its coordinate reference system (\<^verbatim>\<open>geometry["crs"]["properties"]["name"]\<close>, read
  by \<^verbatim>\<open>CRS(...)\<close>). A row of a \<^verbatim>\<open>GeoDataFrame\<close> holds the geometry without that member:
  the frame has one coordinate reference system for all rows.
\<close>

record shape_geom =
  g_first :: "rat \<times> rat"
  g_rest :: "(rat \<times> rat) list"

record geo_feature =
  f_geometry :: "(CRS \<times> shape_geom) option"
  f_properties :: "(string \<times> string) list"

record gdf_row =
  r_geometry :: "shape_geom option"
  r_properties :: "(string \<times> string) list"

record GeoDataFrame =
  rows :: "gdf_row list"
  gdf_crs :: CRS

datatype layer = Array "int ndarray" | Frame GeoDataFrame

record EOPatch =
  bbox :: "BBox option"
  layers :: "FeatureType \<times> string \<rightharpoonup> layer"

section \<open>The raster importer\<close>

datatype raster_value_t =
    RVDict "(string \<times> int \<times> int list) list"
      \<comment> \<open>a \<^verbatim>\<open>dict\<close> from class name to (label, reference colour), in insertion order\<close>
  | RVScalar int
      \<comment> \<open>an \<^verbatim>\<open>int\<close> label\<close>
  | RVOther
      \<comment> \<open>any other object\<close>

record raster_task =
  feature_type :: FeatureType
  feature_name :: string
  raster_value :: raster_value_t
  raster_dtype :: dtype
  no_data_val :: int
  mean_abs_difference :: rat

text \<open>
  The collaborators of the raster importer: the coordinate transform of a bounding box,
  the WMS request (layer, theme and image format are fixed in it) that answers with a
  list of tiles, and \<^verbatim>\<open>rasterio.warp.reproject\<close>, which fills the destination array: given
  the patch's bounding box, the destination no-data value, the grid and the source cells
  it gives the value of each destination cell.
\<close>

record raster_lib =
  bbox_transform :: "BBox \<Rightarrow> CRS \<Rightarrow> BBox"
  wms_get_data :: "BBox \<Rightarrow> nat \<Rightarrow> nat \<Rightarrow> tile list"
  warp :: "BBox \<Rightarrow> int \<Rightarrow> nat \<Rightarrow> nat \<Rightarrow> int list \<Rightarrow> nat \<Rightarrow> int"

definition reproject_raster ::
  "raster_task \<Rightarrow> raster_lib \<Rightarrow> EOPatch \<Rightarrow> int ndarray \<Rightarrow> error + int ndarray" where
  \<comment> \<open>\<^verbatim>\<open>_reproject\<close>: the destination has the shape of the source\<close>
  "reproject_raster task lib eopatch src_raster =
     (case bbox eopatch of
        None \<Rightarrow> Inl MissingBoundingRegionError
      | Some b \<Rightarrow>
          (case shape src_raster of
             [height, width] \<Rightarrow>
               Inr \<lparr>shape = [height, width],
                    cells = map (warp lib b (no_data_val task) height width (cells src_raster))
                              [0..<height * width]\<rparr>
           | _ \<Rightarrow> Inl ShapeError))"

definition to_binary_mask :: "raster_task \<Rightarrow> tile \<Rightarrow> int \<Rightarrow> error + int ndarray" where
  \<comment> \<open>\<^verbatim>\<open>(array[..., -1] > 0).astype(self.raster_dtype) * binaries_raster_value\<close>\<close>
  "to_binary_mask task array binaries_raster_value =
     (if t_channels array = 0 then Inl IndexError
      else if \<not> in_dtype (raster_dtype task) binaries_raster_value then Inl OverflowError
      else Inr \<lparr>shape = [t_height array, t_width array],
                cells = map (\<lambda>px. (if last px > 0 then 1 else 0) * binaries_raster_value)
                          (t_pixels array)\<rparr>)"

subsection \<open>Multi-class classification\<close>

text \<open>
  \<^verbatim>\<open>np.mean(np.abs(request_data - intensities), axis=-1) < self.mean_abs_difference\<close>,
  for one pixel. The subtraction broadcasts the colour list against the channel axis:
  the lengths agree, or one of them is one. The mean is the quotient of the sum by the
  number of channels, rounded to the nearest double. The mean of no number at all is
  NaN, and a comparison with NaN is false.
\<close>

definition broadcastable :: "nat \<Rightarrow> nat \<Rightarrow> bool" where
  "broadcastable c k = (c = k \<or> k = 1 \<or> c = 1)"

definition abs_diff :: "int list \<Rightarrow> int list \<Rightarrow> int list" where
  "abs_diff px intensities =
     (if length px = length intensities then map2 (\<lambda>p r. \<bar>p - r\<bar>) px intensities
      else if length intensities = 1 then map (\<lambda>p. \<bar>p - hd intensities\<bar>) px
      else map (\<lambda>r. \<bar>hd px - r\<bar>) intensities)"

definition mean_last :: "int list \<Rightarrow> rat option" where
  "mean_last ds =
     (if ds = [] then None
      else Some (float64_round (of_int (sum_list ds) / of_nat (length ds))))"

definition mean_abs_diff :: "int list \<Rightarrow> int list \<Rightarrow> rat option" where
  "mean_abs_diff px intensities = mean_last (abs_diff px intensities)"

definition below :: "rat option \<Rightarrow> rat \<Rightarrow> bool" where
  "below m t = (case m of None \<Rightarrow> False | Some v \<Rightarrow> v < t)"

definition close_to :: "rat \<Rightarrow> nat list \<Rightarrow> int list \<Rightarrow> bool" where
  "close_to t px intensities = below (mean_abs_diff (map int px) intensities) t"

text \<open>
  The loop \<^verbatim>\<open>for value, intensities in multiclass_raster_value.values()\<close>. Each round
  computes the Boolean mask of the tile, of shape (tile height, tile width), and assigns
  \<open>value\<close> to the cells of \<open>raster\<close> under it; the raster has shape \<open>dst_shape\<close>, and
  NumPy raises \<^verbatim>\<open>IndexError\<close> when a Boolean index has another shape. The raster has
  the type \<^verbatim>\<open>raster_dtype\<close>, and a \<open>value\<close> outside it cannot be assigned.
\<close>

fun multiclass_loop ::
  "rat \<Rightarrow> dtype \<Rightarrow> tile \<Rightarrow> (int \<times> int list) list \<Rightarrow> int ndarray
     \<Rightarrow> error + int ndarray" where
  "multiclass_loop t d request_data [] raster = Inr raster"
| "multiclass_loop t d request_data ((value, intensities) # others) raster =
     (if \<not> broadcastable (t_channels request_data) (length intensities) then Inl ShapeError
      else if shape raster \<noteq> [t_height request_data, t_width request_data]
        then Inl IndexError
      else if \<not> in_dtype d value then Inl OverflowError
      else multiclass_loop t d request_data others
             (raster\<lparr>cells :=
                map2 (\<lambda>px old. if close_to t px intensities then value else old)
                  (t_pixels request_data) (cells raster)\<rparr>))"

definition classify_multiclass ::
  "raster_task \<Rightarrow> nat \<times> nat \<Rightarrow> tile \<Rightarrow> (string \<times> int \<times> int list) list
     \<Rightarrow> error + int ndarray" where
  \<comment> \<open>\<^verbatim>\<open>_map_from_multiclass\<close> up to the reprojection\<close>
  "classify_multiclass task dst_shape request_data multiclass_raster_value =
     (case np_ones_times (raster_dtype task) [fst dst_shape, snd dst_shape]
             (no_data_val task) of
        Inl e \<Rightarrow> Inl e
      | Inr raster \<Rightarrow>
          multiclass_loop (mean_abs_difference task) (raster_dtype task) request_data
            (map snd multiclass_raster_value) raster)"

definition map_from_multiclass ::
  "raster_task \<Rightarrow> raster_lib \<Rightarrow> EOPatch \<Rightarrow> nat \<times> nat \<Rightarrow> tile
     \<Rightarrow> (string \<times> int \<times> int list) list \<Rightarrow> error + int ndarray" where
  "map_from_multiclass task lib eopatch dst_shape request_data multiclass_raster_value =
     (case classify_multiclass task dst_shape request_data multiclass_raster_value of
        Inl e \<Rightarrow> Inl e
      | Inr raster \<Rightarrow> reproject_raster task lib eopatch raster)"

subsection \<open>Binary classification and merge\<close>

text \<open>
  \<^verbatim>\<open>raster[new_raster != 0] = new_raster[new_raster != 0]\<close>. The Boolean index has the
  shape of \<open>new_raster\<close>; it must cover the leading axes of \<open>raster\<close> exactly, else
  NumPy raises \<^verbatim>\<open>IndexError\<close>. When \<open>raster\<close> has no further axis, each selected cell
  takes the value of \<open>new_raster\<close> at its place. When it has further axes, the selected
  values, a vector of length \<open>n\<close>, are broadcast against the selected blocks, an array of
  shape \<open>n # rest\<close>: that needs \<open>n\<close> to be the last axis length or one, and every selected
  block is then filled along its last axis with that vector.
\<close>

definition bool_index_ok :: "nat list \<Rightarrow> nat list \<Rightarrow> bool" where
  "bool_index_ok ashape mshape =
     (length mshape \<le> length ashape \<and> take (length mshape) ashape = mshape)"

definition update_nonzero :: "int ndarray \<Rightarrow> int ndarray \<Rightarrow> error + int ndarray" where
  "update_nonzero raster new_raster =
     (if \<not> bool_index_ok (shape raster) (shape new_raster) then Inl IndexError
      else
        let rest = drop (length (shape new_raster)) (shape raster);
            vals = filter (\<lambda>v. v \<noteq> 0) (cells new_raster);
            bs = prod_list rest
        in if rest = [] then
             Inr (raster\<lparr>cells :=
                    map2 (\<lambda>old v. if v \<noteq> 0 then v else old) (cells raster) (cells new_raster)\<rparr>)
           else if length vals = last rest \<or> length vals = 1 then
             Inr (raster\<lparr>cells :=
                    concat (map (\<lambda>i. if cells new_raster ! i \<noteq> 0
                                      then map (\<lambda>j. vals ! (if length vals = 1 then 0
                                                              else j mod last rest)) [0..<bs]
                                      else take bs (drop (i * bs) (cells raster)))
                              [0..<length (cells new_raster)])\<rparr>)
           else Inl ShapeError)"

definition base_raster ::
  "raster_task \<Rightarrow> EOPatch \<Rightarrow> nat \<times> nat \<Rightarrow> error + int ndarray" where
  \<comment> \<open>the \<^verbatim>\<open>if self.feature_name in eopatch[self.feature_type]\<close> of \<^verbatim>\<open>_map_from_binaries\<close>\<close>
  "base_raster task eopatch dst_shape =
     (case layers eopatch (feature_type task, feature_name task) of
        Some (Array a) \<Rightarrow> Inr (squeeze a)
      | Some (Frame _) \<Rightarrow> Inl LayerTypeError
      | None \<Rightarrow>
          np_ones_times (raster_dtype task) [fst dst_shape, snd dst_shape] (no_data_val task))"

definition map_from_binaries ::
  "raster_task \<Rightarrow> raster_lib \<Rightarrow> EOPatch \<Rightarrow> nat \<times> nat \<Rightarrow> tile \<Rightarrow> int
     \<Rightarrow> error + int ndarray" where
  "map_from_binaries task lib eopatch dst_shape request_data binaries_raster_value =
     (case base_raster task eopatch dst_shape of
        Inl e \<Rightarrow> Inl e
      | Inr raster \<Rightarrow>
          (case to_binary_mask task request_data binaries_raster_value of
             Inl e \<Rightarrow> Inl e
           | Inr binary \<Rightarrow>
               (case reproject_raster task lib eopatch binary of
                  Inl e \<Rightarrow> Inl e
                | Inr new_raster \<Rightarrow> update_nonzero raster new_raster)))"

subsection \<open>\<^verbatim>\<open>AddGeopediaFeatureTask.execute\<close>\<close>

definition get_wms_request :: "raster_lib \<Rightarrow> BBox option \<Rightarrow> nat \<Rightarrow> nat \<Rightarrow> error + tile list" where
  \<comment> \<open>\<^verbatim>\<open>_get_wms_request\<close> followed by \<^verbatim>\<open>request.get_data()\<close>\<close>
  "get_wms_request lib b size_x size_y =
     (case b of
        None \<Rightarrow> Inl MissingBoundingRegionError
      | Some bb \<Rightarrow> Inr (wms_get_data lib (bbox_transform lib bb POP_WEB) size_x size_y))"

definition classify_and_merge ::
  "raster_task \<Rightarrow> raster_lib \<Rightarrow> EOPatch \<Rightarrow> error + int ndarray" where
  \<comment> \<open>\<^verbatim>\<open>execute\<close> up to and including the dispatch on the type of \<^verbatim>\<open>raster_value\<close>\<close>
  "classify_and_merge task lib eopatch =
     (case layers eopatch (MASK, ''IS_DATA'') of
        None \<Rightarrow> Inl MissingPrerequisiteLayerError
      | Some (Frame _) \<Rightarrow> Inl LayerTypeError
      | Some (Array data_arr) \<Rightarrow>
          (case shape data_arr of
             [_, height, width, _] \<Rightarrow>
               (case get_wms_request lib (bbox eopatch) width height of
                  Inl e \<Rightarrow> Inl e
                | Inr [request_data] \<Rightarrow>
                    (case raster_value task of
                       RVDict d \<Rightarrow>
                         map_from_multiclass task lib eopatch (height, width) request_data d
                     | RVScalar v \<Rightarrow>
                         map_from_binaries task lib eopatch (height, width) request_data v
                     | RVOther \<Rightarrow> Inl UnsupportedConfigurationError)
                | Inr _ \<Rightarrow> Inl UnexpectedResponseError)
           | _ \<Rightarrow> Inl ShapeError))"

definition add_channel_axis :: "raster_task \<Rightarrow> int ndarray \<Rightarrow> int ndarray" where
  \<comment> \<open>\<^verbatim>\<open>if self.feature_type is FeatureType.MASK_TIMELESS and raster.ndim == 2\<close>\<close>
  "add_channel_axis task raster =
     (if feature_type task = MASK_TIMELESS \<and> ndim raster = 2 then newaxis_last raster
      else raster)"

definition set_array_layer ::
  "EOPatch \<Rightarrow> FeatureType \<times> string \<Rightarrow> int ndarray \<Rightarrow> error + EOPatch" where
  \<comment> \<open>\<^verbatim>\<open>eopatch[feature_type][feature_name] = raster\<close>, with the check that \<^verbatim>\<open>EOPatch\<close> makes\<close>
  "set_array_layer eopatch key raster =
     (if feature_ndim (fst key) = Some (ndim raster)
      then Inr (eopatch\<lparr>layers := (layers eopatch)(key \<mapsto> Array raster)\<rparr>)
      else Inl FeatureDimensionError)"

definition execute :: "raster_task \<Rightarrow> raster_lib \<Rightarrow> EOPatch \<Rightarrow> error + EOPatch" where
  "execute task lib eopatch =
     (case classify_and_merge task lib eopatch of
        Inl e \<Rightarrow> Inl e
      | Inr raster \<Rightarrow>
          set_array_layer eopatch (feature_type task, feature_name task)
            (add_channel_axis task raster))"

section \<open>The vector importer\<close>

record vector_task =
  feature :: "FeatureType \<times> string"
  reproject :: bool
  clip :: bool

text \<open>
  The collaborators of the vector importer: the coordinate transform of a bounding box,
  the feature iterator (table, configuration and extra arguments are fixed in it),
  exhausted into a list, the coordinate transform of one geometry between two reference
  systems, and the clipping of rows to a bounding box.
\<close>

record vector_lib =
  transform_bounds :: "BBox \<Rightarrow> CRS \<Rightarrow> BBox"
  feature_iterator :: "BBox option \<Rightarrow> geo_feature list"
  transform_geom :: "CRS \<Rightarrow> CRS \<Rightarrow> shape_geom \<Rightarrow> shape_geom"
  clip_rows :: "BBox \<Rightarrow> gdf_row list \<Rightarrow> gdf_row list"

text \<open>
  What an invocation can change besides its result: the patch object the caller passed
  (\<open>None\<close> when none was passed) and the task's attribute \<^verbatim>\<open>dataset_crs\<close>. Every
  function below returns the state it leaves, also when it raises.
\<close>

record import_state =
  caller_patch :: "EOPatch option"
  dataset_crs :: "CRS option"

definition from_features :: "geo_feature list \<Rightarrow> CRS \<Rightarrow> GeoDataFrame" where
  \<comment> \<open>\<^verbatim>\<open>gpd.GeoDataFrame.from_features(geopedia_features, crs=...)\<close>\<close>
  "from_features fs c =
     \<lparr>rows = map (\<lambda>f. \<lparr>r_geometry = map_option snd (f_geometry f),
                         r_properties = f_properties f\<rparr>) fs,
      gdf_crs = c\<rparr>"

definition load_vector_data ::
  "vector_lib \<Rightarrow> import_state \<Rightarrow> BBox option \<Rightarrow> (error + GeoDataFrame) \<times> import_state" where
  "load_vector_data lib st b =
     (let prepared_bbox = map_option (\<lambda>bb. transform_bounds lib bb POP_WEB) b;
          geopedia_features = feature_iterator lib prepared_bbox
      in case geopedia_features of
           [] \<Rightarrow> (Inl IndexError, st)
         | f # _ \<Rightarrow>
             (case f_geometry f of
                None \<Rightarrow> (Inl EmptyDatasetError, st)
              | Some (c, _) \<Rightarrow>
                  (Inr (from_features geopedia_features c), st\<lparr>dataset_crs := Some c\<rparr>)))"

definition to_crs :: "vector_lib \<Rightarrow> GeoDataFrame \<Rightarrow> CRS \<Rightarrow> GeoDataFrame" where
  \<comment> \<open>\<^verbatim>\<open>vectors.to_crs(...)\<close>: every geometry transformed, the frame tagged with the target\<close>
  "to_crs lib vectors c =
     \<lparr>rows = map (\<lambda>r. r\<lparr>r_geometry :=
                           map_option (transform_geom lib (gdf_crs vectors) c) (r_geometry r)\<rparr>)
               (rows vectors),
      gdf_crs = c\<rparr>"

definition reproject_and_clip ::
  "vector_task \<Rightarrow> vector_lib \<Rightarrow> GeoDataFrame \<Rightarrow> BBox option \<Rightarrow> error + GeoDataFrame" where
  "reproject_and_clip task lib vectors b =
     (case (if reproject task
            then (case b of
                    None \<Rightarrow> Inl MissingBoundingRegionError
                  | Some bb \<Rightarrow> Inr (to_crs lib vectors (crs bb)))
            else Inr vectors) of
        Inl e \<Rightarrow> Inl e
      | Inr vectors1 \<Rightarrow>
          (if clip task
           then (case b of
                   None \<Rightarrow> Inl MissingBoundingRegionError
                 | Some bb \<Rightarrow>
                     if gdf_crs vectors1 \<noteq> crs bb then Inl CrsMismatchError
                     else Inr (vectors1\<lparr>rows := clip_rows lib bb (rows vectors1)\<rparr>))
           else Inr vectors1))"

definition all_vertices :: "GeoDataFrame \<Rightarrow> (rat \<times> rat) list" where
  "all_vertices vectors =
     concat (map (\<lambda>r. case r_geometry r of None \<Rightarrow> [] | Some g \<Rightarrow> g_first g # g_rest g)
               (rows vectors))"

definition total_bounds :: "GeoDataFrame \<Rightarrow> (rat \<times> rat \<times> rat \<times> rat) option" where
  \<comment> \<open>\<^verbatim>\<open>vectors.total_bounds\<close>; \<open>None\<close> stands for the NaN bounds of a frame without vertices\<close>
  "total_bounds vectors =
     (case all_vertices vectors of
        [] \<Rightarrow> None
      | (x, y) # vs \<Rightarrow>
          Some (fold min (map fst vs) x, fold min (map snd vs) y,
                fold max (map fst vs) x, fold max (map snd vs) y))"

definition extent_bbox :: "GeoDataFrame \<Rightarrow> BBox option" where
  \<comment> \<open>\<^verbatim>\<open>BBox((minx, miny, maxx, maxy), crs=CRS(vectors.crs))\<close>\<close>
  "extent_bbox vectors =
     (case total_bounds vectors of
        None \<Rightarrow> None
      | Some (minx, miny, maxx, maxy) \<Rightarrow>
          Some \<lparr>min_x = minx, min_y = miny, max_x = maxx, max_y = maxy,
                crs = gdf_crs vectors\<rparr>)"

definition resolve_bbox :: "EOPatch option \<Rightarrow> BBox option \<Rightarrow> BBox option" where
  \<comment> \<open>\<^verbatim>\<open>if bbox is None and eopatch is not None: bbox = eopatch.bbox\<close>\<close>
  "resolve_bbox eopatch bbox_arg =
     (case bbox_arg of
        Some bb \<Rightarrow> Some bb
      | None \<Rightarrow> (case eopatch of Some p \<Rightarrow> bbox p | None \<Rightarrow> None))"

text \<open>
  \<^verbatim>\<open>GeopediaVectorImportTask.execute\<close>. A loaded frame has a row with a geometry, so its
  bounds are numbers; the branch for NaN bounds is never taken (lemma
  \<open>extent_bbox_loaded\<close> below) and is there to keep the function total.
\<close>

definition vector_execute ::
  "vector_task \<Rightarrow> vector_lib \<Rightarrow> import_state \<Rightarrow> BBox option
     \<Rightarrow> (error + EOPatch) \<times> import_state" where
  "vector_execute task lib st bbox_arg =
     (let eopatch = caller_patch st;
          b = resolve_bbox eopatch bbox_arg
      in case load_vector_data lib st b of
           (Inl e, st1) \<Rightarrow> (Inl e, st1)
         | (Inr vectors, st1) \<Rightarrow>
             (case (case b of Some bb \<Rightarrow> Some bb | None \<Rightarrow> extent_bbox vectors) of
                None \<Rightarrow> (Inl ShapeError, st1)
              | Some final_bbox \<Rightarrow>
                  (let p1 = (case eopatch of
                               Some p \<Rightarrow> p
                             | None \<Rightarrow> \<lparr>bbox = Some final_bbox, layers = Map.empty\<rparr>);
                       p2 = (if bbox p1 = None then p1\<lparr>bbox := Some final_bbox\<rparr> else p1);
                       st2 = st1\<lparr>caller_patch := map_option (\<lambda>_. p2) eopatch\<rparr>
                   in case reproject_and_clip task lib vectors b of
                        Inl e \<Rightarrow> (Inl e, st2)
                      | Inr vectors2 \<Rightarrow>
                          (let p3 = p2\<lparr>layers := (layers p2)(feature task \<mapsto> Frame vectors2)\<rparr>
                           in (Inr p3, st2\<lparr>caller_patch := map_option (\<lambda>_. p3) eopatch\<rparr>)))))"

section \<open>Auxiliary definitions\<close>

text \<open>
  The multi-class loop seen from one pixel: the label the pixel carries after the classes
  \<open>cls\<close> have been gone through in order, starting from \<open>cur\<close>.
\<close>

fun pixel_label :: "rat \<Rightarrow> nat list \<Rightarrow> (int \<times> int list) list \<Rightarrow> int \<Rightarrow> int" where
  "pixel_label t px [] cur = cur"
| "pixel_label t px ((v, intensities) # others) cur =
     pixel_label t px others (if close_to t px intensities then v else cur)"

text \<open>
  The criterion of the specification, written from its words and not from the code: the
  mean absolute per-channel difference between a pixel's colour and a reference colour
  with as many components, as a rational number; and the same mean as a double, that is
  rounded to the nearest one, strictly below the tolerance.
\<close>

definition spec_mean_abs_diff :: "nat list \<Rightarrow> int list \<Rightarrow> rat" where
  "spec_mean_abs_diff px colour =
     of_int (\<Sum>k < length px. \<bar>int (px ! k) - colour ! k\<bar>) / of_nat (length px)"

definition spec_within_tolerance :: "rat \<Rightarrow> nat list \<Rightarrow> int list \<Rightarrow> bool" where
  "spec_within_tolerance t px colour = (float64_round (spec_mean_abs_diff px colour) < t)"

text \<open>
  The sum of the absolute differences is below \<open>2 ^ 53\<close>: every integer and partial sum
  that \<^verbatim>\<open>np.mean\<close> meets is then a double, and the differences do not leave the 64-bit
  range.
\<close>

definition sum_exact :: "int list \<Rightarrow> int list \<Rightarrow> bool" where
  "sum_exact px colour = (sum_list (abs_diff px colour) < 2 ^ 53)"

text \<open>
  Reference colours are well separated relative to a tolerance when no two classes at
  different positions have colours whose mean absolute difference is below it. With a
  positive tolerance this makes the colours pairwise different.
\<close>

definition well_separated :: "rat \<Rightarrow> (int \<times> int list) list \<Rightarrow> bool" where
  "well_separated t cls =
     (\<forall>j \<in> set [0..<length cls]. \<forall>k \<in> set [0..<length cls].
        j \<noteq> k \<longrightarrow> \<not> below (mean_abs_diff (snd (cls ! j)) (snd (cls ! k))) t)"

subsection \<open>Example inputs\<close>

text \<open>
  A tile of one row and three pixels, the first transparent. Two class mappings: in
  \<open>ex_near\<close> both colours are within tolerance 2 of the second pixel, in \<open>ex_far\<close>
  they are far apart.
\<close>

definition ex_tile :: tile where
  "ex_tile = \<lparr>t_height = 1, t_width = 3, t_channels = 4,
              t_pixels = [[0, 0, 0, 0], [10, 20, 30, 255], [11, 21, 31, 255]]\<rparr>"

definition ex_task :: raster_task where
  "ex_task = \<lparr>feature_type = MASK_TIMELESS, feature_name = ''LULC'',
              raster_value = RVScalar 5, raster_dtype = UInt8, no_data_val = 0,
              mean_abs_difference = 2\<rparr>"

definition ex_near :: "(string \<times> int \<times> int list) list" where
  "ex_near = [(''a'', 1, [10, 20, 30, 255]), (''b'', 2, [12, 22, 31, 255])]"

definition ex_far :: "(string \<times> int \<times> int list) list" where
  "ex_far = [(''a'', 1, [10, 20, 30, 255]), (''b'', 2, [73, 119, 20, 255])]"

text \<open>
  In \<open>ex_edge\<close> the colour of the last class is at mean difference exactly 2 from the
  second pixel. In \<open>ex_over\<close> the first label does not fit eight bits. A tile of one
  pixel with three channels, as a JPG tile has, and a task whose tolerance is the double
  nearest to 5/3, which is above 5/3.
\<close>

definition ex_edge :: "(string \<times> int \<times> int list) list" where
  "ex_edge = [(''a'', 1, [10, 20, 30, 255]), (''b'', 2, [12, 22, 32, 253])]"

definition ex_over :: "(string \<times> int \<times> int list) list" where
  "ex_over = [(''a'', 300, [10, 20, 30, 255]), (''b'', 2, [73, 119, 20, 255])]"

definition ex_tile_rgb :: tile where
  "ex_tile_rgb = \<lparr>t_height = 1, t_width = 1, t_channels = 3, t_pixels = [[5, 0, 0]]\<rparr>"

definition ex_task_rgb :: raster_task where
  "ex_task_rgb = ex_task\<lparr>mean_abs_difference := 7505999378950827 / 4503599627370496\<rparr>"

definition ex_black :: "(string \<times> int \<times> int list) list" where
  "ex_black = [(''a'', 1, [0, 0, 0])]"

text \<open>The cells of an array are as many as its shape says.\<close>

definition array_ok :: "'a ndarray \<Rightarrow> bool" where
  "array_ok a = (length (cells a) = prod_list (shape a))"

text \<open>
  A patch with a grid of two rows and two columns that already has the target layer, and
  collaborators that answer with a given tile and warp every cell onto itself.
\<close>

definition ex_bbox :: BBox where
  "ex_bbox = \<lparr>min_x = 0, min_y = 0, max_x = 10, max_y = 10, crs = EPSG 4326\<rparr>"

definition ex_lib :: "tile \<Rightarrow> raster_lib" where
  "ex_lib answer = \<lparr>bbox_transform = (\<lambda>b c. b\<lparr>crs := c\<rparr>),
                wms_get_data = (\<lambda>b size_x size_y. [answer]),
                warp = (\<lambda>b nd height width src i. src ! i)\<rparr>"

definition ex_tile_sq :: tile where
  "ex_tile_sq = \<lparr>t_height = 2, t_width = 2, t_channels = 4,
                 t_pixels = [[0, 0, 0, 0], [10, 20, 30, 255], [11, 21, 31, 255], [0, 0, 0, 0]]\<rparr>"

definition ex_patch_sq :: EOPatch where
  "ex_patch_sq = \<lparr>bbox = Some ex_bbox,
                  layers = [(MASK, ''IS_DATA'') \<mapsto> Array \<lparr>shape = [1, 2, 2, 1], cells = [1, 1, 1, 1]\<rparr>,
                            (MASK_TIMELESS, ''LULC'') \<mapsto> Array \<lparr>shape = [2, 2, 1], cells = [9, 9, 9, 9]\<rparr>]\<rparr>"

text \<open>
  A patch with a grid of one row and three columns and no target layer, and the patch
  that one execution in binary mode makes of it. A task that writes to the timeless data
  category.
\<close>

definition ex_patch_row :: EOPatch where
  "ex_patch_row = \<lparr>bbox = Some ex_bbox,
                   layers = [(MASK, ''IS_DATA'') \<mapsto> Array \<lparr>shape = [1, 1, 3, 1], cells = [1, 1, 1]\<rparr>]\<rparr>"

definition ex_patch_row_once :: EOPatch where
  "ex_patch_row_once =
     ex_patch_row\<lparr>layers := (layers ex_patch_row)((MASK_TIMELESS, ''LULC'') \<mapsto>
                                 Array \<lparr>shape = [1, 3, 1], cells = [0, 5, 5]\<rparr>)\<rparr>"

definition ex_task_data :: raster_task where
  "ex_task_data = ex_task\<lparr>feature_type := DATA_TIMELESS\<rparr>"

text \<open>
  Vector collaborators that answer with a given feature list, leave geometries as they
  are and clip nothing. Three features in EPSG:4326 whose extent is (0, 0) to (10, 10).
  Tasks with the three settings of the flags, a patch without bounding region and a
  bounding box in another reference system.
\<close>

definition ex_vlib :: "geo_feature list \<Rightarrow> vector_lib" where
  "ex_vlib answer = \<lparr>transform_bounds = (\<lambda>b c. b\<lparr>crs := c\<rparr>),
                     feature_iterator = (\<lambda>prepared_bbox. answer),
                     transform_geom = (\<lambda>src dst g. g),
                     clip_rows = (\<lambda>b rs. rs)\<rparr>"

definition ex_features :: "geo_feature list" where
  "ex_features =
     [\<lparr>f_geometry = Some (EPSG 4326, \<lparr>g_first = (0, 0), g_rest = [(4, 0), (4, 3)]\<rparr>),
       f_properties = [(''name'', ''field'')]\<rparr>,
      \<lparr>f_geometry = Some (EPSG 4326, \<lparr>g_first = (2, 5), g_rest = [(10, 5)]\<rparr>),
       f_properties = [(''name'', ''road'')]\<rparr>,
      \<lparr>f_geometry = Some (EPSG 4326, \<lparr>g_first = (7, 10), g_rest = []\<rparr>),
       f_properties = [(''name'', ''well'')]\<rparr>]"

definition ex_vtask :: vector_task where
  "ex_vtask = \<lparr>feature = (VECTOR_TIMELESS, ''LAND''), reproject = True, clip = False\<rparr>"

definition ex_vtask_plain :: vector_task where
  "ex_vtask_plain = \<lparr>feature = (VECTOR_TIMELESS, ''LAND''), reproject = False, clip = False\<rparr>"

definition ex_patch_nobbox :: EOPatch where
  "ex_patch_nobbox = \<lparr>bbox = None, layers = Map.empty\<rparr>"

definition ex_vtask_clip :: vector_task where
  "ex_vtask_clip = \<lparr>feature = (VECTOR_TIMELESS, ''LAND''), reproject = False, clip = True\<rparr>"

definition ex_bbox_web :: BBox where
  "ex_bbox_web = \<lparr>min_x = 0, min_y = 0, max_x = 1000, max_y = 1000, crs = EPSG 3857\<rparr>"

text \<open>The patches that the example invocations return.\<close>

definition ex_patch_land :: EOPatch where
  "ex_patch_land =
     \<lparr>bbox = Some ex_bbox,
      layers = [(VECTOR_TIMELESS, ''LAND'') \<mapsto> Frame (from_features ex_features (EPSG 4326))]\<rparr>"

definition ex_patch_sq_raster :: EOPatch where
  "ex_patch_sq_raster =
     ex_patch_sq\<lparr>layers := (layers ex_patch_sq)((MASK_TIMELESS, ''LULC'') \<mapsto>
                                Array \<lparr>shape = [2, 2, 1], cells = [9, 5, 5, 9]\<rparr>)\<rparr>"

definition ex_patch_sq_vector :: EOPatch where
  "ex_patch_sq_vector =
     ex_patch_sq\<lparr>layers := (layers ex_patch_sq)((VECTOR_TIMELESS, ''LAND'') \<mapsto>
                                Frame (from_features ex_features (EPSG 4326)))\<rparr>"

section \<open>Rounding to double precision\<close>

lemma round_half_even_of_int: "round_half_even (of_int m) = m"
  by (simp add: round_half_even_def)

lemma case_last:
  "es \<noteq> [] \<Longrightarrow> (case es of [] \<Rightarrow> a | x # xs \<Rightarrow> last (x # xs)) = last es"
  by (cases es) simp_all

lemma f64_emin_le_emax: "f64_emin \<le> f64_emax"
  by (simp add: f64_emin_def f64_emax_def)

lemma f64_exponent_le:
  assumes "2 powi f64_emin \<le> x"
  shows "2 powi (f64_exponent x) \<le> x"
proof -
  let ?es = "filter (\<lambda>e. 2 powi e \<le> x) [f64_emin..f64_emax]"
  have "f64_emin \<in> set ?es" using assms f64_emin_le_emax by simp
  then have ne: "?es \<noteq> []" by (metis empty_iff list.set(1))
  then have "last ?es \<in> set ?es" by (rule last_in_set)
  moreover have "f64_exponent x = last ?es"
    using ne by (simp add: f64_exponent_def split: list.splits)
  ultimately show ?thesis by simp
qed

lemma f64_exponent_small:
  assumes "x < 2 powi f64_emin"
  shows "f64_exponent x = f64_emin"
proof -
  have "\<not> 2 powi e \<le> x" if "f64_emin \<le> e" for e :: int
  proof
    assume "2 powi e \<le> x"
    moreover have "(2::rat) powi f64_emin \<le> 2 powi e"
      using that by (intro power_int_increasing) simp_all
    ultimately show False using assms by simp
  qed
  then have "filter (\<lambda>e. 2 powi e \<le> x) [f64_emin..f64_emax] = []"
    by (simp add: filter_empty_conv)
  then show ?thesis by (simp add: f64_exponent_def)
qed

lemma f64_exponent_eq:
  assumes "2 powi e \<le> x" and "x < 2 powi (e + 1)" and "f64_emin \<le> e" and "e \<le> f64_emax"
  shows "f64_exponent x = e"
proof -
  have iff: "2 powi k \<le> x \<longleftrightarrow> k \<le> e" for k :: int
  proof
    assume le: "2 powi k \<le> x"
    show "k \<le> e"
    proof (rule ccontr)
      assume "\<not> k \<le> e"
      then have "(2::rat) powi (e + 1) \<le> 2 powi k"
        by (intro power_int_increasing) simp_all
      with le assms(2) show False by simp
    qed
  next
    assume "k \<le> e"
    then have "(2::rat) powi k \<le> 2 powi e" by (intro power_int_increasing) simp_all
    with assms(1) show "2 powi k \<le> x" by simp
  qed
  have split: "[f64_emin..f64_emax] = [f64_emin..e] @ [e + 1..f64_emax]"
    using assms(3,4) by (rule upto_split2)
  have keep: "filter (\<lambda>k. k \<le> e) [f64_emin..e] = [f64_emin..e]"
    by (simp add: filter_id_conv)
  have drop: "filter (\<lambda>k. k \<le> e) [e + 1..f64_emax] = []"
    by (simp add: filter_empty_conv)
  have "filter (\<lambda>k. 2 powi k \<le> x) [f64_emin..f64_emax]
          = filter (\<lambda>k. k \<le> e) ([f64_emin..e] @ [e + 1..f64_emax])"
    by (simp only: iff split [symmetric])
  then have F: "filter (\<lambda>k. 2 powi k \<le> x) [f64_emin..f64_emax] = [f64_emin..e]"
    by (simp only: filter_append keep drop append_Nil2)
  have ne: "[f64_emin..e] \<noteq> []" using assms(3) by simp
  have l: "last [f64_emin..e] = e" using assms(3) by (simp add: upto_rec2)
  have "f64_exponent x = last [f64_emin..e]"
    unfolding f64_exponent_def F using ne by (cases "[f64_emin..e]") simp_all
  with l show ?thesis by simp
qed

text \<open>
  A nonnegative multiple of \<open>1 / 2 ^ k\<close> below \<open>2 ^ 53 / 2 ^ k\<close> is a double: rounding
  leaves it as it is.
\<close>

lemma float64_round_exact:
  assumes "0 \<le> m" and "m < 2 ^ 53" and "k \<le> 1022"
  shows "float64_round (of_int m / 2 ^ k) = of_int m / 2 ^ k"
proof (cases "m = 0")
  case True
  then show ?thesis by (simp add: float64_round_def round_half_even_def)
next
  case False
  let ?x = "of_int m / 2 ^ k :: rat"
  let ?e = "f64_exponent ?x"
  have m1: "1 \<le> m" using assms(1) False by simp
  have xk: "?x = of_int m * 2 powi (- int k)"
    by (simp add: power_int_minus field_simps)
  have "(2::rat) powi f64_emin \<le> 2 powi (- int k)"
    using assms(3) by (intro power_int_increasing) (simp_all add: f64_emin_def)
  also have "\<dots> \<le> ?x"
  proof -
    have "1 * (2::rat) powi (- int k) \<le> of_int m * 2 powi (- int k)"
      using m1 by (intro mult_right_mono) simp_all
    then show ?thesis unfolding xk by simp
  qed
  finally have low: "2 powi f64_emin \<le> ?x" .
  have "2 powi ?e \<le> ?x" using low by (rule f64_exponent_le)
  also have "?x < 2 ^ 53 * 2 powi (- int k)"
    unfolding xk using assms(2) by (simp add: of_int_less_numeral_power_cancel_iff)
  also have "\<dots> = 2 powi (53 - int k)"
    by (simp add: power_int_diff power_int_minus field_simps)
  finally have "(2::rat) powi ?e < 2 powi (53 - int k)" .
  then have "?e < 53 - int k"
  proof -
    assume lt: "(2::rat) powi ?e < 2 powi (53 - int k)"
    show ?thesis
    proof (rule ccontr)
      assume "\<not> ?e < 53 - int k"
      then have "(2::rat) powi (53 - int k) \<le> 2 powi ?e"
        by (intro power_int_increasing) simp_all
      with lt show False by simp
    qed
  qed
  then have "0 \<le> 52 - int k - ?e" by simp
  then obtain j :: nat where j: "int j = 52 - int k - ?e"
    using nonneg_int_cases by metis
  have "?x / 2 powi (?e - 52) = of_int m * (2 powi (- int k) * 2 powi (52 - ?e))"
    unfolding xk by (simp add: power_int_diff power_int_minus field_simps)
  also have "(2::rat) powi (- int k) * 2 powi (52 - ?e) = 2 powi (int j)"
    unfolding j by (simp flip: power_int_add) (simp add: algebra_simps)
  also have "of_int m * (2::rat) powi (int j) = of_int (m * 2 ^ j)" by simp
  finally have q: "?x / 2 powi (?e - 52) = of_int (m * 2 ^ j)" .
  have "float64_round ?x = of_int (m * 2 ^ j) * 2 powi (?e - 52)"
    by (simp only: float64_round_def Let_def q round_half_even_of_int)
  also have "\<dots> = ?x / 2 powi (?e - 52) * 2 powi (?e - 52)" by (simp only: q)
  also have "\<dots> = ?x" by simp
  finally show ?thesis .
qed


lemma float64_round_dyadic:
  assumes "0 \<le> x" and "x * 2 ^ k \<in> \<int>" and "x * 2 ^ k < 2 ^ 53" and "k \<le> 1022"
  shows "float64_round x = x"
proof -
  from assms(2) obtain m :: int where m: "x * 2 ^ k = of_int m" by (auto elim: Ints_cases)
  then have x: "x = of_int m / 2 ^ k" by (simp add: field_simps)
  have "0 \<le> x * 2 ^ k" using assms(1) by simp
  then have m0: "0 \<le> m" unfolding m by simp
  have "(of_int m :: rat) < 2 ^ 53" using assms(3) unfolding m .
  then have m1: "m < 2 ^ 53" by (simp add: of_int_less_numeral_power_cancel_iff)
  show ?thesis unfolding x using m0 m1 assms(4) by (rule float64_round_exact)
qed

lemma float64_round_quarters:
  assumes "0 \<le> x" and "x * 4 \<in> \<int>" and "x * 4 < 9007199254740992"
  shows "float64_round x = x"
  using float64_round_dyadic [of x 2] assms by simp

lemma float64_round_five_thirds:
  "float64_round (5 / 3) = 7505999378950827 / 4503599627370496"
proof -
  have e: "f64_exponent (5 / 3) = 0"
    by (rule f64_exponent_eq) (simp_all add: f64_emin_def f64_emax_def)
  have q: "(5 / 3 :: rat) / 2 powi (0 - 52) = 22517998136852480 / 3"
    by (simp add: power_int_minus)
  have f: "\<lfloor>22517998136852480 / 3 :: rat\<rfloor> = 7505999378950826"
    by (rule floor_unique) simp_all
  have r: "round_half_even (22517998136852480 / 3) = 7505999378950827"
    by (simp add: round_half_even_def f Let_def)
  show ?thesis
    by (simp only: float64_round_def e Let_def q r) (simp add: power_int_minus)
qed


section \<open>Binary classification\<close>

text \<open>
  Claim C3, as amended. In binary mode, when the configured scalar label is
  representable in \<open>raster_dtype\<close>, for every pixel of the fetched tile the
  classification before reprojection gives label 0 to a pixel whose alpha (last)
  channel is zero and the configured label to a pixel whose alpha channel is not zero.
  The tile has at least one channel, as the tile client promises; samples are unsigned,
  so \<open>> 0\<close> in the source is "not zero".
\<close>

theorem binary_mask_labels:
  assumes "0 < t_channels array" and "in_dtype (raster_dtype task) v"
    and "i < length (t_pixels array)"
  shows "\<exists>m. to_binary_mask task array v = Inr m
             \<and> shape m = [t_height array, t_width array]
             \<and> (last (t_pixels array ! i) = 0 \<longrightarrow> cells m ! i = 0)
             \<and> (last (t_pixels array ! i) \<noteq> 0 \<longrightarrow> cells m ! i = v)"
  using assms by (simp add: to_binary_mask_def)

theorem binary_mask_labels_witness:
  "0 < t_channels ex_tile \<and> in_dtype (raster_dtype ex_task) 7 \<and> 1 < length (t_pixels ex_tile)
   \<and> last (t_pixels ex_tile ! 1) \<noteq> 0 \<and> last (t_pixels ex_tile ! 0) = 0
   \<and> (\<exists>m. to_binary_mask ex_task ex_tile 7 = Inr m \<and> cells m ! 1 = 7)"
proof -
  have h1: "0 < t_channels ex_tile" by (simp add: ex_tile_def)
  have h2: "in_dtype (raster_dtype ex_task) 7" by (simp add: ex_task_def in_dtype_def)
  have h3: "1 < length (t_pixels ex_tile)" by (simp add: ex_tile_def)
  have a1: "last (t_pixels ex_tile ! 1) \<noteq> 0" and a0: "last (t_pixels ex_tile ! 0) = 0"
    by (simp_all add: ex_tile_def)
  from binary_mask_labels [OF h1 h2 h3] a1
  have "\<exists>m. to_binary_mask ex_task ex_tile 7 = Inr m \<and> cells m ! 1 = 7" by blast
  with h1 h2 h3 a1 a0 show ?thesis by blast
qed

text \<open>
  The claim as first stated, for every scalar label, fails for a label that the type of
  the output array cannot hold: 300 with the default eight unsigned bits.
\<close>

theorem binary_label_out_of_dtype:
  "raster_dtype ex_task = UInt8 \<and> last (t_pixels ex_tile ! 1) \<noteq> 0
   \<and> to_binary_mask ex_task ex_tile 300 = Inl OverflowError"
  by (simp add: to_binary_mask_def ex_task_def ex_tile_def in_dtype_def)

section \<open>Multi-class classification\<close>

lemma map2_snd_same: "length ys \<le> length xs \<Longrightarrow> map2 (\<lambda>x y. y) xs ys = ys"
  by (induction ys arbitrary: xs) (auto simp: Suc_le_length_iff)

lemma multiclass_loop_cells:
  assumes "shape raster = [t_height d, t_width d]"
    and "length (cells raster) = length (t_pixels d)"
    and "list_all (\<lambda>c. broadcastable (t_channels d) (length (snd c))) cls"
    and "list_all (\<lambda>c. in_dtype dt (fst c)) cls"
  shows "multiclass_loop t dt d cls raster =
           Inr (raster\<lparr>cells := map2 (\<lambda>px old. pixel_label t px cls old)
                                  (t_pixels d) (cells raster)\<rparr>)"
  using assms
proof (induction cls arbitrary: raster)
  case Nil
  then show ?case by (simp add: map2_snd_same)
next
  case (Cons c cls)
  obtain v ref where c: "c = (v, ref)" by (cases c)
  let ?r = "raster\<lparr>cells := map2 (\<lambda>px old. if close_to t px ref then v else old)
                            (t_pixels d) (cells raster)\<rparr>"
  have "multiclass_loop t dt d (c # cls) raster = multiclass_loop t dt d cls ?r"
    using Cons.prems by (simp add: c)
  also have "\<dots> = Inr (?r\<lparr>cells := map2 (\<lambda>px old. pixel_label t px cls old)
                                  (t_pixels d) (cells ?r)\<rparr>)"
    using Cons.prems by (intro Cons.IH) simp_all
  also have "map2 (\<lambda>px old. pixel_label t px cls old) (t_pixels d) (cells ?r)
             = map2 (\<lambda>px old. pixel_label t px (c # cls) old) (t_pixels d) (cells raster)"
    using Cons.prems(2) by (intro nth_equalityI) (simp_all add: c)
  finally show ?case by simp
qed

lemma pixel_label_no_match:
  "\<forall>c \<in> set cls. \<not> close_to t px (snd c) \<Longrightarrow> pixel_label t px cls cur = cur"
  by (induction cls arbitrary: cur) auto

lemma pixel_label_last_match:
  assumes "j < length cls" and "close_to t px (snd (cls ! j))"
    and "\<forall>k. j < k \<and> k < length cls \<longrightarrow> \<not> close_to t px (snd (cls ! k))"
  shows "pixel_label t px cls cur = fst (cls ! j)"
  using assms
proof (induction cls arbitrary: j cur)
  case Nil
  then show ?case by simp
next
  case (Cons c cls)
  obtain v ref where c: "c = (v, ref)" by (cases c)
  show ?case
  proof (cases j)
    case 0
    have "\<forall>d \<in> set cls. \<not> close_to t px (snd d)"
    proof
      fix d assume "d \<in> set cls"
      then obtain k where "k < length cls" "cls ! k = d" by (auto simp: in_set_conv_nth)
      with Cons.prems(3) [rule_format, of "Suc k"] 0 show "\<not> close_to t px (snd d)" by auto
    qed
    with Cons.prems(2) 0 show ?thesis by (simp add: c pixel_label_no_match)
  next
    case (Suc j')
    have "pixel_label t px cls (if close_to t px ref then v else cur) = fst (cls ! j')"
    proof (rule Cons.IH)
      show "j' < length cls" using Cons.prems(1) Suc by simp
      show "close_to t px (snd (cls ! j'))" using Cons.prems(2) Suc by simp
      show "\<forall>k. j' < k \<and> k < length cls \<longrightarrow> \<not> close_to t px (snd (cls ! k))"
        using Cons.prems(3) Suc by (metis Suc_less_eq length_Cons nth_Cons_Suc)
    qed
    then show ?thesis by (simp add: c Suc)
  qed
qed

lemma classify_multiclass_cells:
  assumes "tile_ok d" and "t_height d = fst dst_shape" and "t_width d = snd dst_shape"
    and "list_all (\<lambda>c. broadcastable (t_channels d) (length (snd (snd c)))) spec"
    and "in_dtype (raster_dtype task) (no_data_val task)"
    and "list_all (\<lambda>c. in_dtype (raster_dtype task) (fst (snd c))) spec"
  shows "classify_multiclass task dst_shape d spec =
           Inr \<lparr>shape = [fst dst_shape, snd dst_shape],
                cells = map (\<lambda>px. pixel_label (mean_abs_difference task) px (map snd spec)
                                    (no_data_val task)) (t_pixels d)\<rparr>"
proof -
  let ?r = "np_full [fst dst_shape, snd dst_shape] (no_data_val task)"
  have start: "np_ones_times (raster_dtype task) [fst dst_shape, snd dst_shape]
                 (no_data_val task) = Inr ?r"
    using assms(5) by (simp add: np_ones_times_def)
  have len: "length (cells ?r) = length (t_pixels d)"
    using assms(1-3) by (simp add: np_full_def tile_ok_def)
  have shp: "shape ?r = [t_height d, t_width d]"
    using assms(2,3) by (simp add: np_full_def)
  have bc: "list_all (\<lambda>c. broadcastable (t_channels d) (length (snd c))) (map snd spec)"
    using assms(4) by (simp add: list_all_iff)
  have dt: "list_all (\<lambda>c. in_dtype (raster_dtype task) (fst c)) (map snd spec)"
    using assms(6) by (simp add: list_all_iff)
  have "map2 (\<lambda>px old. pixel_label (mean_abs_difference task) px (map snd spec) old)
          (t_pixels d) (cells ?r)
        = map (\<lambda>px. pixel_label (mean_abs_difference task) px (map snd spec)
                       (no_data_val task)) (t_pixels d)"
    using len by (intro nth_equalityI) (simp_all add: np_full_def)
  with multiclass_loop_cells [OF shp len bc dt, of "mean_abs_difference task"]
  show ?thesis by (simp add: classify_multiclass_def start np_full_def)
qed

text \<open>
  The test of the code on one pixel is the criterion of the specification, when the
  colour has as many components as the pixel has channels.
\<close>

lemma sum_list_map2_nth:
  assumes "length xs = length ys"
  shows "sum_list (map2 f xs ys) = (\<Sum>k < length xs. f (xs ! k) (ys ! k))"
proof -
  have "sum_list (map2 f xs ys) = (\<Sum>k = 0..<length (map2 f xs ys). map2 f xs ys ! k)"
    by (rule sum_list_sum_nth)
  also have "\<dots> = (\<Sum>k = 0..<length xs. f (xs ! k) (ys ! k))"
    using assms by (intro sum.cong) simp_all
  finally show ?thesis by (simp add: atLeast0LessThan)
qed

lemma close_to_spec:
  assumes "length colour = length px" and "px \<noteq> []"
  shows "close_to t px colour = spec_within_tolerance t px colour"
proof -
  have ad: "abs_diff (map int px) colour = map2 (\<lambda>p r. \<bar>p - r\<bar>) (map int px) colour"
    using assms(1) by (simp add: abs_diff_def)
  have ne: "abs_diff (map int px) colour \<noteq> []"
    using assms unfolding ad by (cases px; cases colour) simp_all
  have len: "length (abs_diff (map int px) colour) = length px"
    unfolding ad using assms(1) by simp
  have "sum_list (abs_diff (map int px) colour)
          = (\<Sum>k < length (map int px). \<bar>map int px ! k - colour ! k\<bar>)"
    unfolding ad using assms(1) by (intro sum_list_map2_nth) simp
  also have "\<dots> = (\<Sum>k < length px. \<bar>int (px ! k) - colour ! k\<bar>)"
    by (intro sum.cong) simp_all
  finally have sum: "sum_list (abs_diff (map int px) colour)
                       = (\<Sum>k < length px. \<bar>int (px ! k) - colour ! k\<bar>)" .
  show ?thesis
    using ne
    by (simp add: close_to_def below_def mean_abs_diff_def mean_last_def len sum
        spec_within_tolerance_def spec_mean_abs_diff_def)
qed

text \<open>
  Claim C1, as amended. In multi-class mode, with a tile of the grid's shape, reference
  colours with as many components as the tile has channels, and labels and a no-data
  value representable in \<open>raster_dtype\<close>: the classification before reprojection
  returns a raster in which every pixel carries the no-data value when no class of the
  mapping has a mean absolute per-channel difference to the pixel's colour that, as the
  double it is computed as, is strictly below the tolerance; and otherwise the label of
  the class that is within tolerance and latest in the mapping's iteration order.
\<close>

theorem multiclass_last_match_wins:
  assumes "tile_ok request_data"
    and "t_height request_data = fst dst_shape" and "t_width request_data = snd dst_shape"
    and "0 < t_channels request_data"
    and "list_all (\<lambda>c. length (snd (snd c)) = t_channels request_data) spec"
    and "in_dtype (raster_dtype task) (no_data_val task)"
    and "list_all (\<lambda>c. in_dtype (raster_dtype task) (fst (snd c))) spec"
    and "i < length (t_pixels request_data)"
    and "list_all (\<lambda>c. sum_exact (map int (t_pixels request_data ! i)) (snd (snd c))) spec"
  shows "\<exists>raster. classify_multiclass task dst_shape request_data spec = Inr raster
           \<and> shape raster = [fst dst_shape, snd dst_shape]
           \<and> ((\<forall>j < length spec.
                  \<not> float64_round
                      (of_int (\<Sum>k < t_channels request_data.
                                 \<bar>int (t_pixels request_data ! i ! k) - snd (snd (spec ! j)) ! k\<bar>)
                       / of_nat (t_channels request_data))
                    < mean_abs_difference task)
                \<longrightarrow> cells raster ! i = no_data_val task)
           \<and> (\<forall>j < length spec.
                  float64_round
                    (of_int (\<Sum>k < t_channels request_data.
                               \<bar>int (t_pixels request_data ! i ! k) - snd (snd (spec ! j)) ! k\<bar>)
                     / of_nat (t_channels request_data))
                  < mean_abs_difference task
                  \<and> (\<forall>l. j < l \<and> l < length spec
                        \<longrightarrow> \<not> float64_round
                              (of_int (\<Sum>k < t_channels request_data.
                                         \<bar>int (t_pixels request_data ! i ! k)
                                            - snd (snd (spec ! l)) ! k\<bar>)
                               / of_nat (t_channels request_data))
                            < mean_abs_difference task)
                  \<longrightarrow> cells raster ! i = fst (snd (spec ! j)))"
proof -
  let ?t = "mean_abs_difference task" and ?px = "t_pixels request_data ! i"
  let ?cls = "map snd spec"
  let ?n = "t_channels request_data"
  let ?w = "\<lambda>j. float64_round
                 (of_int (\<Sum>k < ?n. \<bar>int (?px ! k) - snd (snd (spec ! j)) ! k\<bar>) / of_nat ?n) < ?t"
  let ?r = "\<lparr>shape = [fst dst_shape, snd dst_shape],
             cells = map (\<lambda>px. pixel_label ?t px ?cls (no_data_val task))
                       (t_pixels request_data)\<rparr>"
  have bc: "list_all (\<lambda>c. broadcastable ?n (length (snd (snd c)))) spec"
    using assms(5) by (simp add: list_all_iff broadcastable_def)
  have eq: "classify_multiclass task dst_shape request_data spec = Inr ?r"
    using assms(1-3) bc assms(6,7) by (rule classify_multiclass_cells)
  have pxn: "length ?px = ?n"
    using assms(1,8) by (simp add: tile_ok_def list_all_length)
  then have pxne: "?px \<noteq> []" using assms(4) by auto
  have crit: "close_to ?t ?px (snd (snd (spec ! j))) = ?w j" if "j < length spec" for j
  proof -
    have "length (snd (snd (spec ! j))) = length ?px"
      using assms(5) that pxn by (simp add: list_all_length)
    then show ?thesis
      using pxne pxn
      by (simp add: close_to_spec spec_within_tolerance_def spec_mean_abs_diff_def)
  qed
  have cell: "cells ?r ! i = pixel_label ?t ?px ?cls (no_data_val task)"
    using assms(8) by simp
  have none: "cells ?r ! i = no_data_val task" if "\<forall>j < length spec. \<not> ?w j"
  proof -
    have "\<forall>c \<in> set ?cls. \<not> close_to ?t ?px (snd c)"
    proof
      fix c assume "c \<in> set ?cls"
      then obtain j where "j < length spec" "c = snd (spec ! j)"
        by (auto simp: in_set_conv_nth)
      with that crit show "\<not> close_to ?t ?px (snd c)" by simp
    qed
    then show ?thesis unfolding cell by (rule pixel_label_no_match)
  qed
  have some: "cells ?r ! i = fst (snd (spec ! j))"
    if "j < length spec" and "?w j" and "\<forall>l. j < l \<and> l < length spec \<longrightarrow> \<not> ?w l" for j
  proof -
    have "pixel_label ?t ?px ?cls (no_data_val task) = fst (?cls ! j)"
    proof (rule pixel_label_last_match)
      show "j < length ?cls" using that(1) by simp
      show "close_to ?t ?px (snd (?cls ! j))" using that(1,2) crit by simp
      show "\<forall>l. j < l \<and> l < length ?cls \<longrightarrow> \<not> close_to ?t ?px (snd (?cls ! l))"
        using that(3) crit by simp
    qed
    with that(1) show ?thesis unfolding cell by simp
  qed
  show ?thesis
    using eq none some by (intro exI [of _ ?r]) simp
qed


lemmas close_to_eval = close_to_def below_def mean_abs_diff_def mean_last_def abs_diff_def
  float64_round_quarters

lemmas classify_eval = classify_multiclass_def np_ones_times_def in_dtype_def np_full_def
  broadcastable_def

theorem multiclass_last_match_wins_witness:
  "tile_ok ex_tile \<and> t_height ex_tile = fst (1, 3) \<and> t_width ex_tile = snd (1, 3)
   \<and> 0 < t_channels ex_tile
   \<and> list_all (\<lambda>c. length (snd (snd c)) = t_channels ex_tile) ex_near
   \<and> list_all (\<lambda>c. length (snd (snd c)) = t_channels ex_tile) ex_edge
   \<and> in_dtype (raster_dtype ex_task) (no_data_val ex_task)
   \<and> list_all (\<lambda>c. in_dtype (raster_dtype ex_task) (fst (snd c))) ex_near
   \<and> list_all (\<lambda>c. in_dtype (raster_dtype ex_task) (fst (snd c))) ex_edge
   \<and> 1 < length (t_pixels ex_tile)
   \<and> list_all (\<lambda>c. sum_exact (map int (t_pixels ex_tile ! 1)) (snd (snd c))) ex_near
   \<and> list_all (\<lambda>c. sum_exact (map int (t_pixels ex_tile ! 1)) (snd (snd c))) ex_edge
   \<and> spec_mean_abs_diff (t_pixels ex_tile ! 1) (snd (snd (ex_near ! 0))) = 0
   \<and> spec_mean_abs_diff (t_pixels ex_tile ! 1) (snd (snd (ex_near ! 1))) = 5 / 4
   \<and> spec_mean_abs_diff (t_pixels ex_tile ! 1) (snd (snd (ex_edge ! 1))) = 2
   \<and> mean_abs_difference ex_task = 2
   \<and> (\<exists>raster. classify_multiclass ex_task (1, 3) ex_tile ex_near = Inr raster
          \<and> cells raster ! 1 = 2)
   \<and> (\<exists>raster. classify_multiclass ex_task (1, 3) ex_tile ex_edge = Inr raster
          \<and> cells raster ! 1 = 1)"
proof -
  let ?w = "\<lambda>spec j. float64_round
                 (of_int (\<Sum>k < t_channels ex_tile.
                            \<bar>int (t_pixels ex_tile ! 1 ! k) - snd (snd (spec ! j)) ! k\<bar>)
                  / of_nat (t_channels ex_tile))
               < mean_abs_difference ex_task"
  have h1: "tile_ok ex_tile" by (simp add: tile_ok_def ex_tile_def)
  have h2: "t_height ex_tile = fst (1, 3)" by (simp add: ex_tile_def)
  have h3: "t_width ex_tile = snd (1, 3)" by (simp add: ex_tile_def)
  have h4: "0 < t_channels ex_tile" by (simp add: ex_tile_def)
  have h5: "list_all (\<lambda>c. length (snd (snd c)) = t_channels ex_tile) ex_near"
    and h5': "list_all (\<lambda>c. length (snd (snd c)) = t_channels ex_tile) ex_edge"
    by (simp_all add: ex_tile_def ex_near_def ex_edge_def)
  have h6: "in_dtype (raster_dtype ex_task) (no_data_val ex_task)"
    by (simp add: ex_task_def in_dtype_def)
  have h7: "list_all (\<lambda>c. in_dtype (raster_dtype ex_task) (fst (snd c))) ex_near"
    and h7': "list_all (\<lambda>c. in_dtype (raster_dtype ex_task) (fst (snd c))) ex_edge"
    by (simp_all add: ex_task_def in_dtype_def ex_near_def ex_edge_def)
  have h8: "1 < length (t_pixels ex_tile)" by (simp add: ex_tile_def)
  have h9: "list_all (\<lambda>c. sum_exact (map int (t_pixels ex_tile ! 1)) (snd (snd c))) ex_near"
    and h9': "list_all (\<lambda>c. sum_exact (map int (t_pixels ex_tile ! 1)) (snd (snd c))) ex_edge"
    by (simp_all add: sum_exact_def abs_diff_def ex_tile_def ex_near_def ex_edge_def)
  have m0: "spec_mean_abs_diff (t_pixels ex_tile ! 1) (snd (snd (ex_near ! 0))) = 0"
    and m1: "spec_mean_abs_diff (t_pixels ex_tile ! 1) (snd (snd (ex_near ! 1))) = 5 / 4"
    and m2: "spec_mean_abs_diff (t_pixels ex_tile ! 1) (snd (snd (ex_edge ! 1))) = 2"
    by (simp_all add: spec_mean_abs_diff_def ex_tile_def ex_near_def ex_edge_def lessThan_Suc
        eval_nat_numeral)
  have t: "mean_abs_difference ex_task = 2" by (simp add: ex_task_def)
  have n1: "?w ex_near 1"
    by (simp add: ex_tile_def ex_near_def ex_task_def lessThan_Suc eval_nat_numeral
        float64_round_quarters)
  have e0: "?w ex_edge 0" and e1: "\<not> ?w ex_edge 1"
    by (simp_all add: ex_tile_def ex_edge_def ex_task_def lessThan_Suc eval_nat_numeral
        float64_round_quarters)
  from multiclass_last_match_wins [OF h1 h2 h3 h4 h5 h6 h7 h8 h9]
  obtain r1 where r1: "classify_multiclass ex_task (1, 3) ex_tile ex_near = Inr r1"
    and w1: "\<forall>j < length ex_near.
               ?w ex_near j \<and> (\<forall>l. j < l \<and> l < length ex_near \<longrightarrow> \<not> ?w ex_near l)
               \<longrightarrow> cells r1 ! 1 = fst (snd (ex_near ! j))"
    by blast
  have "cells r1 ! 1 = fst (snd (ex_near ! 1))"
    using w1 [rule_format, of 1] n1 by (simp add: ex_near_def)
  then have c1: "cells r1 ! 1 = 2" by (simp add: ex_near_def)
  from multiclass_last_match_wins [OF h1 h2 h3 h4 h5' h6 h7' h8 h9']
  obtain r2 where r2: "classify_multiclass ex_task (1, 3) ex_tile ex_edge = Inr r2"
    and w2: "\<forall>j < length ex_edge.
               ?w ex_edge j \<and> (\<forall>l. j < l \<and> l < length ex_edge \<longrightarrow> \<not> ?w ex_edge l)
               \<longrightarrow> cells r2 ! 1 = fst (snd (ex_edge ! j))"
    by blast
  have len: "length ex_edge = 2" by (simp add: ex_edge_def)
  have "\<forall>l. 0 < l \<and> l < length ex_edge \<longrightarrow> \<not> ?w ex_edge l"
  proof (intro allI impI)
    fix l assume "0 < l \<and> l < length ex_edge"
    then have "l = 1" using len by simp
    with e1 show "\<not> ?w ex_edge l" by simp
  qed
  with w2 [rule_format, of 0] e0 len have "cells r2 ! 1 = fst (snd (ex_edge ! 0))" by simp
  then have c2: "cells r2 ! 1 = 1" by (simp add: ex_edge_def)
  from h1 h2 h3 h4 h5 h5' h6 h7 h7' h8 h9 h9' m0 m1 m2 t r1 c1 r2 c2 show ?thesis by blast
qed

text \<open>
  The claim as first stated fails in two ways. The mean that is compared is a double: on
  a tile of three channels the pixel (5, 0, 0) is at mean difference 5/3 from black, which
  is strictly below a tolerance set to the double nearest to 5/3, and yet the pixel keeps
  the no-data value, because the computed mean is that double. And a label that the type
  of the raster cannot hold is not assigned: the assignment raises.
\<close>

theorem multiclass_rounding_and_overflow:
  "spec_mean_abs_diff (t_pixels ex_tile_rgb ! 0) (snd (snd (ex_black ! 0)))
     < mean_abs_difference ex_task_rgb
   \<and> fst (snd (ex_black ! 0)) = 1
   \<and> classify_multiclass ex_task_rgb (1, 1) ex_tile_rgb ex_black
       = Inr \<lparr>shape = [1, 1], cells = [0]\<rparr>
   \<and> spec_mean_abs_diff (t_pixels ex_tile ! 1) (snd (snd (ex_over ! 0)))
       < mean_abs_difference ex_task
   \<and> fst (snd (ex_over ! 0)) = 300
   \<and> classify_multiclass ex_task (1, 3) ex_tile ex_over = Inl OverflowError"
proof -
  have a: "spec_mean_abs_diff (t_pixels ex_tile_rgb ! 0) (snd (snd (ex_black ! 0)))
             < mean_abs_difference ex_task_rgb"
    by (simp add: spec_mean_abs_diff_def ex_tile_rgb_def ex_black_def ex_task_rgb_def
        lessThan_Suc eval_nat_numeral)
  have b: "classify_multiclass ex_task_rgb (1, 1) ex_tile_rgb ex_black
             = Inr \<lparr>shape = [1, 1], cells = [0]\<rparr>"
    by (simp add: classify_eval close_to_def below_def mean_abs_diff_def mean_last_def
        abs_diff_def float64_round_five_thirds ex_task_rgb_def ex_task_def ex_tile_rgb_def
        ex_black_def)
  have c: "spec_mean_abs_diff (t_pixels ex_tile ! 1) (snd (snd (ex_over ! 0)))
             < mean_abs_difference ex_task"
    by (simp add: spec_mean_abs_diff_def ex_tile_def ex_over_def ex_task_def
        lessThan_Suc eval_nat_numeral)
  have d: "classify_multiclass ex_task (1, 3) ex_tile ex_over = Inl OverflowError"
    by (simp add: classify_eval ex_task_def ex_tile_def ex_over_def)
  have e: "fst (snd (ex_black ! 0)) = 1" "fst (snd (ex_over ! 0)) = 300"
    by (simp_all add: ex_black_def ex_over_def)
  from a b c d e show ?thesis by blast
qed

section \<open>Well-separated colours\<close>

lemma mean_abs_diff_self: "xs \<noteq> [] \<Longrightarrow> mean_abs_diff xs xs = Some 0"
proof -
  assume ne: "xs \<noteq> []"
  have "abs_diff xs xs = map (\<lambda>x. 0) xs"
    by (simp add: abs_diff_def map2_map_map [where h = "\<lambda>p r. \<bar>p - r\<bar>" and f = id and g = id, simplified] zip_same_conv_map)
  moreover have "sum_list (map (\<lambda>x. 0::int) xs) = 0" by (induction xs) auto
  ultimately show ?thesis
    using ne by (simp add: mean_abs_diff_def mean_last_def float64_round_quarters)
qed

lemma well_separated_distinct:
  assumes "well_separated t cls" and "0 < t" and "\<forall>c \<in> set cls. snd c \<noteq> []"
  shows "distinct (map snd cls)"
proof -
  have "map snd cls ! j \<noteq> map snd cls ! k"
    if "j < length cls" and "k < length cls" and "j \<noteq> k" for j k
  proof
    assume "map snd cls ! j = map snd cls ! k"
    then have eq: "snd (cls ! j) = snd (cls ! k)" using that by simp
    have "snd (cls ! k) \<noteq> []" using assms(3) that(2) by simp
    then have "below (mean_abs_diff (snd (cls ! j)) (snd (cls ! k))) t"
      using assms(2) by (simp add: eq mean_abs_diff_self below_def)
    moreover have "\<not> below (mean_abs_diff (snd (cls ! j)) (snd (cls ! k))) t"
      using assms(1) that by (simp add: well_separated_def)
    ultimately show False by simp
  qed
  then show ?thesis by (simp add: distinct_conv_nth)
qed

text \<open>
  Claim C5, as amended. In multi-class mode, when the reference colours have the tile's
  channel count, the tolerance is positive, the colours are well separated relative to
  it, and the labels and the no-data value are representable in \<open>raster_dtype\<close>, a
  pixel whose colour is exactly the reference colour of the class at position \<open>j\<close> of
  the mapping is given that class's label, whatever the position \<open>j\<close> is.
\<close>

theorem exact_colour_gets_own_label:
  assumes ok: "tile_ok request_data"
    and hh: "t_height request_data = fst dst_shape"
    and ww: "t_width request_data = snd dst_shape"
    and ch: "0 < t_channels request_data"
    and len: "list_all (\<lambda>c. length (snd (snd c)) = t_channels request_data) spec"
    and nd: "in_dtype (raster_dtype task) (no_data_val task)"
    and lab: "list_all (\<lambda>c. in_dtype (raster_dtype task) (fst (snd c))) spec"
    and pos: "0 < mean_abs_difference task"
    and sep: "well_separated (mean_abs_difference task) (map snd spec)"
    and i: "i < length (t_pixels request_data)" and j: "j < length spec"
    and same: "map int (t_pixels request_data ! i) = snd (snd (spec ! j))"
    and exact: "list_all (\<lambda>c. sum_exact (snd (snd (spec ! j))) (snd (snd c))) spec"
  shows "\<exists>raster. classify_multiclass task dst_shape request_data spec = Inr raster
           \<and> cells raster ! i = fst (snd (spec ! j))"
proof -
  let ?t = "mean_abs_difference task" and ?px = "t_pixels request_data ! i"
  let ?cls = "map snd spec"
  let ?r = "\<lparr>shape = [fst dst_shape, snd dst_shape],
             cells = map (\<lambda>px. pixel_label ?t px ?cls (no_data_val task))
                       (t_pixels request_data)\<rparr>"
  have bc: "list_all (\<lambda>c. broadcastable (t_channels request_data) (length (snd (snd c)))) spec"
    using len by (simp add: list_all_iff broadcastable_def)
  have eq: "classify_multiclass task dst_shape request_data spec = Inr ?r"
    using ok hh ww bc nd lab by (rule classify_multiclass_cells)
  have ne: "snd (snd (spec ! j)) \<noteq> []"
    using ch len j by (auto simp: list_all_length)
  have own: "close_to ?t ?px (snd (?cls ! j))"
    using pos j same mean_abs_diff_self [OF ne] by (simp add: close_to_def below_def)
  have other: "\<not> close_to ?t ?px (snd (?cls ! k))" if "k < length ?cls" and "j \<noteq> k" for k
  proof -
    have "\<not> below (mean_abs_diff (snd (?cls ! j)) (snd (?cls ! k))) ?t"
      using sep j that unfolding well_separated_def by simp
    then show ?thesis using j same by (simp add: close_to_def)
  qed
  have "pixel_label ?t ?px ?cls (no_data_val task) = fst (?cls ! j)"
  proof (rule pixel_label_last_match)
    show "j < length ?cls" using j by simp
    show "close_to ?t ?px (snd (?cls ! j))" by (rule own)
    show "\<forall>k. j < k \<and> k < length ?cls \<longrightarrow> \<not> close_to ?t ?px (snd (?cls ! k))"
      using other by auto
  qed
  then have "cells ?r ! i = fst (snd (spec ! j))"
    using i j by simp
  with eq show ?thesis by (intro exI [of _ ?r]) simp
qed

theorem exact_colour_gets_own_label_witness:
  "tile_ok ex_tile \<and> t_height ex_tile = fst (1, 3) \<and> t_width ex_tile = snd (1, 3)
   \<and> 0 < t_channels ex_tile
   \<and> list_all (\<lambda>c. length (snd (snd c)) = t_channels ex_tile) ex_far
   \<and> in_dtype (raster_dtype ex_task) (no_data_val ex_task)
   \<and> list_all (\<lambda>c. in_dtype (raster_dtype ex_task) (fst (snd c))) ex_far
   \<and> 0 < mean_abs_difference ex_task
   \<and> well_separated (mean_abs_difference ex_task) (map snd ex_far)
   \<and> 1 < length (t_pixels ex_tile) \<and> 0 < length ex_far
   \<and> map int (t_pixels ex_tile ! 1) = snd (snd (ex_far ! 0))
   \<and> list_all (\<lambda>c. sum_exact (snd (snd (ex_far ! 0))) (snd (snd c))) ex_far
   \<and> (\<exists>raster. classify_multiclass ex_task (1, 3) ex_tile ex_far = Inr raster
          \<and> cells raster ! 1 = 1)"
proof -
  have h1: "tile_ok ex_tile" by (simp add: tile_ok_def ex_tile_def)
  have h2: "t_height ex_tile = fst (1, 3)" by (simp add: ex_tile_def)
  have h3: "t_width ex_tile = snd (1, 3)" by (simp add: ex_tile_def)
  have h4: "0 < t_channels ex_tile" by (simp add: ex_tile_def)
  have h5: "list_all (\<lambda>c. length (snd (snd c)) = t_channels ex_tile) ex_far"
    by (simp add: ex_tile_def ex_far_def)
  have d1: "in_dtype (raster_dtype ex_task) (no_data_val ex_task)"
    by (simp add: ex_task_def in_dtype_def)
  have d2: "list_all (\<lambda>c. in_dtype (raster_dtype ex_task) (fst (snd c))) ex_far"
    by (simp add: ex_task_def in_dtype_def ex_far_def)
  have h6: "0 < mean_abs_difference ex_task" by (simp add: ex_task_def)
  have h7: "well_separated (mean_abs_difference ex_task) (map snd ex_far)"
    by (simp add: well_separated_def ex_far_def ex_task_def close_to_eval less_Suc_eq)
  have h8: "1 < length (t_pixels ex_tile)" by (simp add: ex_tile_def)
  have h9: "0 < length ex_far" by (simp add: ex_far_def)
  have h10: "map int (t_pixels ex_tile ! 1) = snd (snd (ex_far ! 0))"
    by (simp add: ex_tile_def ex_far_def)
  have h11: "list_all (\<lambda>c. sum_exact (snd (snd (ex_far ! 0))) (snd (snd c))) ex_far"
    by (simp add: sum_exact_def abs_diff_def ex_far_def)
  from exact_colour_gets_own_label [OF h1 h2 h3 h4 h5 d1 d2 h6 h7 h8 h9 h10 h11]
  obtain raster where "classify_multiclass ex_task (1, 3) ex_tile ex_far = Inr raster"
    and "cells raster ! 1 = fst (snd (ex_far ! 0))" by blast
  moreover have "fst (snd (ex_far ! 0)) = 1" by (simp add: ex_far_def)
  ultimately show ?thesis using h1 h2 h3 h4 h5 d1 d2 h6 h7 h8 h9 h10 h11 by auto
qed

text \<open>
  The claim as first stated, for every label, fails for a label that the type of the
  raster cannot hold: the colours of \<open>ex_over\<close> are those of \<open>ex_far\<close>, the second
  pixel has exactly the first colour, and assigning the label 300 raises.
\<close>

theorem exact_colour_label_out_of_dtype:
  "0 < mean_abs_difference ex_task
   \<and> well_separated (mean_abs_difference ex_task) (map snd ex_over)
   \<and> map int (t_pixels ex_tile ! 1) = snd (snd (ex_over ! 0))
   \<and> fst (snd (ex_over ! 0)) = 300
   \<and> raster_dtype ex_task = UInt8
   \<and> classify_multiclass ex_task (1, 3) ex_tile ex_over = Inl OverflowError"
proof -
  have a: "0 < mean_abs_difference ex_task" by (simp add: ex_task_def)
  have b: "well_separated (mean_abs_difference ex_task) (map snd ex_over)"
    by (simp add: well_separated_def ex_over_def ex_task_def close_to_eval less_Suc_eq)
  have c: "map int (t_pixels ex_tile ! 1) = snd (snd (ex_over ! 0))"
    by (simp add: ex_tile_def ex_over_def)
  have d: "fst (snd (ex_over ! 0)) = 300" by (simp add: ex_over_def)
  have e: "raster_dtype ex_task = UInt8" by (simp add: ex_task_def)
  have f: "classify_multiclass ex_task (1, 3) ex_tile ex_over = Inl OverflowError"
    by (simp add: classify_eval ex_task_def ex_tile_def ex_over_def)
  from a b c d e f show ?thesis by blast
qed

section \<open>The merge policy\<close>

lemma reproject_raster_layers:
  "reproject_raster task lib (eopatch\<lparr>layers := existing\<rparr>) src = reproject_raster task lib eopatch src"
  by (simp add: reproject_raster_def)

lemma reproject_raster_length:
  "reproject_raster task lib eopatch src = Inr new_raster \<Longrightarrow> array_ok new_raster"
  by (auto simp: reproject_raster_def array_ok_def split: option.splits list.splits)

lemma update_nonzero_same_shape:
  assumes "shape base = shape new_raster"
  shows "update_nonzero base new_raster =
           Inr (base\<lparr>cells := map2 (\<lambda>old v. if v \<noteq> 0 then v else old)
                                 (cells base) (cells new_raster)\<rparr>)"
  using assms by (simp add: update_nonzero_def bool_index_ok_def Let_def)

text \<open>
  The policy on a base raster that has the shape of the reprojected raster: the result
  has the reprojected value in every cell where that value is not zero and the base
  value in every other cell; the base is the squeezed target layer or a fresh raster
  of the no-data value. In multi-class mode the result is the reprojection of the
  classification, whatever the layers of the patch hold.
\<close>

lemma merge_policy_same_shape:
  assumes "to_binary_mask task request_data v = Inr binary"
    and "reproject_raster task lib eopatch binary = Inr new_raster"
    and "base_raster task eopatch dst_shape = Inr base"
    and "array_ok base"
    and "shape base = shape new_raster"
  shows "(layers eopatch (feature_type task, feature_name task) = None
            \<longrightarrow> base = np_full [fst dst_shape, snd dst_shape] (no_data_val task))
       \<and> (\<forall>a. layers eopatch (feature_type task, feature_name task) = Some (Array a)
            \<longrightarrow> base = squeeze a)
       \<and> (\<exists>raster. map_from_binaries task lib eopatch dst_shape request_data v = Inr raster
            \<and> shape raster = shape base
            \<and> length (cells raster) = length (cells base)
            \<and> (\<forall>i < length (cells base).
                  cells raster ! i =
                    (if cells new_raster ! i \<noteq> 0 then cells new_raster ! i
                     else cells base ! i)))
       \<and> (\<forall>existing.
             map_from_multiclass task lib (eopatch\<lparr>layers := existing\<rparr>) dst_shape
               request_data d =
             (case classify_multiclass task dst_shape request_data d of
                Inl e \<Rightarrow> Inl e
              | Inr classified \<Rightarrow> reproject_raster task lib eopatch classified))"
proof -
  let ?r = "base\<lparr>cells := map2 (\<lambda>old v. if v \<noteq> 0 then v else old)
                             (cells base) (cells new_raster)\<rparr>"
  have len: "length (cells base) = length (cells new_raster)"
    using assms(4,5) reproject_raster_length [OF assms(2)] by (simp add: array_ok_def)
  have fresh: "layers eopatch (feature_type task, feature_name task) = None
                 \<longrightarrow> base = np_full [fst dst_shape, snd dst_shape] (no_data_val task)"
    using assms(3) by (auto simp: base_raster_def np_ones_times_def split: if_splits)
  have existing: "\<forall>a. layers eopatch (feature_type task, feature_name task) = Some (Array a)
                    \<longrightarrow> base = squeeze a"
    using assms(3) by (auto simp: base_raster_def)
  have "map_from_binaries task lib eopatch dst_shape request_data v = Inr ?r"
    using assms(1-3) update_nonzero_same_shape [OF assms(5)]
    by (simp add: map_from_binaries_def)
  moreover have "\<forall>i < length (cells base).
      cells ?r ! i = (if cells new_raster ! i \<noteq> 0 then cells new_raster ! i else cells base ! i)"
    using len by simp
  ultimately have merged: "\<exists>raster.
      map_from_binaries task lib eopatch dst_shape request_data v = Inr raster
      \<and> shape raster = shape base \<and> length (cells raster) = length (cells base)
      \<and> (\<forall>i < length (cells base).
            cells raster ! i =
              (if cells new_raster ! i \<noteq> 0 then cells new_raster ! i else cells base ! i))"
    using len by (intro exI [of _ ?r]) simp
  have multi: "\<forall>existing.
      map_from_multiclass task lib (eopatch\<lparr>layers := existing\<rparr>) dst_shape request_data d =
      (case classify_multiclass task dst_shape request_data d of
         Inl e \<Rightarrow> Inl e
       | Inr classified \<Rightarrow> reproject_raster task lib eopatch classified)"
    by (simp add: map_from_multiclass_def reproject_raster_layers split: sum.splits)
  from fresh existing merged multi show ?thesis by blast
qed

lemmas raster_eval = execute_def set_array_layer_def classify_and_merge_def
  get_wms_request_def map_from_binaries_def base_raster_def to_binary_mask_def
  reproject_raster_def update_nonzero_def bool_index_ok_def np_ones_times_def in_dtype_def
  np_full_def squeeze_def add_channel_axis_def ndim_def newaxis_last_def eval_nat_numeral

text \<open>
  Claim C2, merge policy: in binary mode an existing target layer is read as the base
  raster, squeezed to two dimensions, and its cells are overwritten where the
  reprojected value is not zero. On a grid of one row it is not so: the layer of shape
  (1, 3, 1) that an earlier execution stored is squeezed to one dimension, shape (3),
  and the merge raises \<open>IndexError\<close> in place of overwriting cells.
\<close>

theorem merge_on_row_grid_fails:
  "layers ex_patch_row_once (feature_type ex_task, feature_name ex_task)
     = Some (Array \<lparr>shape = [1, 3, 1], cells = [0, 5, 5]\<rparr>)
   \<and> base_raster ex_task ex_patch_row_once (1, 3) = Inr \<lparr>shape = [3], cells = [0, 5, 5]\<rparr>
   \<and> map_from_binaries ex_task (ex_lib ex_tile) ex_patch_row_once (1, 3) ex_tile 5
       = Inl IndexError"
  by (simp add: raster_eval ex_patch_row_once_def ex_patch_row_def ex_task_def ex_lib_def
      ex_tile_def upt_rec)

section \<open>Executing the raster importer\<close>

lemma map2_update_twice:
  "map2 (\<lambda>old v. if v \<noteq> (0::int) then v else old)
     (map2 (\<lambda>old v. if v \<noteq> 0 then v else old) xs ys) ys
   = map2 (\<lambda>old v. if v \<noteq> 0 then v else old) xs ys"
  by (induction xs ys rule: list_induct2') auto

lemma update_nonzero_twice:
  assumes "update_nonzero base new_raster = Inr r"
    and "length (shape r) = length (shape new_raster)"
  shows "update_nonzero r new_raster = Inr r"
proof -
  have ok: "bool_index_ok (shape base) (shape new_raster)"
    using assms(1) by (auto simp: update_nonzero_def split: if_splits)
  have shp: "shape r = shape base"
    using assms(1) by (auto simp: update_nonzero_def Let_def split: if_splits)
  have same: "shape base = shape new_raster"
    using ok assms(2) shp by (simp add: bool_index_ok_def)
  have r: "r = base\<lparr>cells := map2 (\<lambda>old v. if v \<noteq> 0 then v else old)
                               (cells base) (cells new_raster)\<rparr>"
    using assms(1) same by (simp add: update_nonzero_def bool_index_ok_def)
  show ?thesis
    using same by (simp add: r update_nonzero_def bool_index_ok_def map2_update_twice)
qed

lemma reproject_raster_2d:
  "reproject_raster task lib eopatch src = Inr new_raster \<Longrightarrow> length (shape new_raster) = 2"
  by (auto simp: reproject_raster_def split: option.splits list.splits)

lemma squeeze_add_channel_axis:
  assumes "shape raster = [height, width]" and "height \<noteq> 1" and "width \<noteq> 1"
  shows "squeeze (add_channel_axis task raster) = raster"
  using assms by (simp add: squeeze_def add_channel_axis_def newaxis_last_def ndim_def)

lemma map_from_binaries_twice:
  assumes "map_from_binaries task lib eopatch dst_shape request_data v = Inr raster"
    and "shape raster = [height, width]" and "height \<noteq> 1" and "width \<noteq> 1"
    and "bbox p1 = bbox eopatch"
    and "layers p1 (feature_type task, feature_name task)
           = Some (Array (add_channel_axis task raster))"
  shows "map_from_binaries task lib p1 dst_shape request_data v = Inr raster"
proof -
  from assms(1) obtain base binary new_raster where
    b: "to_binary_mask task request_data v = Inr binary"
    and n: "reproject_raster task lib eopatch binary = Inr new_raster"
    and u: "update_nonzero base new_raster = Inr raster"
    by (auto simp: map_from_binaries_def split: sum.splits)
  have n1: "reproject_raster task lib p1 binary = Inr new_raster"
    using n assms(5) by (simp add: reproject_raster_def)
  have base1: "base_raster task p1 dst_shape = Inr raster"
    using assms(6) squeeze_add_channel_axis [OF assms(2-4)] by (simp add: base_raster_def)
  have "update_nonzero raster new_raster = Inr raster"
    using u reproject_raster_2d [OF n] assms(2) by (intro update_nonzero_twice) simp_all
  with b n1 base1 show ?thesis by (simp add: map_from_binaries_def)
qed

lemma execute_twice_same:
  assumes "raster_value task = RVScalar v"
    and "(feature_type task, feature_name task) \<noteq> (MASK, ''IS_DATA'')"
    and "classify_and_merge task lib eopatch = Inr raster"
    and "shape raster = [height, width]" and "height \<noteq> 1" and "width \<noteq> 1"
    and "execute task lib eopatch = Inr p1"
  shows "execute task lib p1 = Inr p1"
proof -
  have p1: "p1 = eopatch\<lparr>layers :=
                   (layers eopatch)((feature_type task, feature_name task) \<mapsto>
                      Array (add_channel_axis task raster))\<rparr>"
    using assms(3,7) by (auto simp: execute_def set_array_layer_def split: if_splits)
  have dim: "feature_ndim (feature_type task) = Some (ndim (add_channel_axis task raster))"
    using assms(3,7) by (auto simp: execute_def set_array_layer_def split: if_splits)
  have bb: "bbox p1 = bbox eopatch" by (simp add: p1)
  have lay: "layers p1 (feature_type task, feature_name task)
               = Some (Array (add_channel_axis task raster))" by (simp add: p1)
  have isd: "layers p1 (MASK, ''IS_DATA'') = layers eopatch (MASK, ''IS_DATA'')"
    using assms(2) by (auto simp: p1)
  from assms(3) obtain data_arr where d: "layers eopatch (MASK, ''IS_DATA'') = Some (Array data_arr)"
    by (auto simp: classify_and_merge_def split: option.splits layer.splits)
  from assms(3) d obtain t0 h0 w0 c0 where s: "shape data_arr = [t0, h0, w0, c0]"
    by (auto simp: classify_and_merge_def split: list.splits)
  from assms(3) d s obtain request_data where
    g: "get_wms_request lib (bbox eopatch) w0 h0 = Inr [request_data]"
    by (auto simp: classify_and_merge_def split: sum.splits list.splits)
  have m: "map_from_binaries task lib eopatch (h0, w0) request_data v = Inr raster"
    using assms(1,3) d s g by (simp add: classify_and_merge_def)
  have "map_from_binaries task lib p1 (h0, w0) request_data v = Inr raster"
    using m assms(4-6) bb lay by (rule map_from_binaries_twice)
  then have "classify_and_merge task lib p1 = Inr raster"
    using assms(1) d s g isd bb by (simp add: classify_and_merge_def)
  then have "execute task lib p1 =
      Inr (p1\<lparr>layers := (layers p1)((feature_type task, feature_name task) \<mapsto>
                            Array (add_channel_axis task raster))\<rparr>)"
    using dim by (simp add: execute_def set_array_layer_def)
  also have "\<dots> = Inr p1" by (simp add: p1)
  finally show ?thesis .
qed

text \<open>
  Claim C4, binary merge idempotence: executing the raster importer twice with the same
  tile gives the raster that executing it once gives. Lemma \<open>execute_twice_same\<close> shows
  this when neither the height nor the width of the grid is one. On the grid of one row
  below it fails: the first execution stores the layer with shape (1, 3, 1), the second
  reads it back squeezed to shape (3), and the Boolean index of shape (1, 3) is of too
  many dimensions for it.
\<close>

theorem execute_twice_row_grid:
  "execute ex_task (ex_lib ex_tile) ex_patch_row = Inr ex_patch_row_once
   \<and> execute ex_task (ex_lib ex_tile) ex_patch_row_once = Inl IndexError"
  by (simp add: raster_eval ex_patch_row_once_def ex_patch_row_def ex_task_def ex_lib_def
      ex_tile_def upt_rec)

section \<open>Writing the result into the patch\<close>

text \<open>
  With the category \<open>MASK_TIMELESS\<close> a two-dimensional result gets a trailing axis of
  length one and is written into the patch.
\<close>

lemma channel_axis_for_timeless_mask:
  assumes "classify_and_merge task lib eopatch = Inr raster" and "ndim raster = 2"
    and "feature_type task = MASK_TIMELESS"
  shows "execute task lib eopatch =
           Inr (eopatch\<lparr>layers :=
                  (layers eopatch)((feature_type task, feature_name task) \<mapsto>
                     Array (newaxis_last raster))\<rparr>)"
  using assms
  by (simp add: execute_def set_array_layer_def add_channel_axis_def ndim_def newaxis_last_def)

text \<open>
  Claim C8: when the classified and merged result is a two-dimensional array and the
  configured category is a timeless raster category, a trailing axis of length one is
  appended before the result is written. The guard of \<open>execute\<close> names
  \<open>MASK_TIMELESS\<close> only. With the other timeless raster category, \<open>DATA_TIMELESS\<close>,
  no axis is appended, the array stays two-dimensional, and the patch refuses it:
  \<open>execute\<close> raises and nothing is written.
\<close>

theorem timeless_data_write_rejected:
  "is_timeless_raster (feature_type ex_task_data)
   \<and> classify_and_merge ex_task_data (ex_lib ex_tile_sq) ex_patch_sq
       = Inr \<lparr>shape = [2, 2], cells = [0, 5, 5, 0]\<rparr>
   \<and> add_channel_axis ex_task_data \<lparr>shape = [2, 2], cells = [0, 5, 5, 0]\<rparr>
       = \<lparr>shape = [2, 2], cells = [0, 5, 5, 0]\<rparr>
   \<and> execute ex_task_data (ex_lib ex_tile_sq) ex_patch_sq = Inl FeatureDimensionError"
  by (simp add: raster_eval is_timeless_raster_def ex_task_data_def ex_patch_sq_def ex_task_def
      ex_lib_def ex_tile_sq_def upt_rec)

section \<open>Executing the vector importer\<close>

lemmas vector_eval = vector_execute_def load_vector_data_def resolve_bbox_def from_features_def
  reproject_and_clip_def to_crs_def extent_bbox_def total_bounds_def all_vertices_def Let_def

lemma load_vector_data_Inr:
  assumes "load_vector_data lib st b = (Inr vectors, st1)"
  shows "\<exists>f fs c g. feature_iterator lib (map_option (\<lambda>bb. transform_bounds lib bb POP_WEB) b) = f # fs
           \<and> f_geometry f = Some (c, g) \<and> vectors = from_features (f # fs) c
           \<and> st1 = st\<lparr>dataset_crs := Some c\<rparr>"
  using assms
  by (auto simp: load_vector_data_def Let_def split: list.splits option.splits prod.splits)

lemma fold_min_eq: "fold min xs (x::rat) = Min (set (x # xs))"
  by (rule Min.set_eq_fold [symmetric])

lemma fold_max_eq: "fold max xs (x::rat) = Max (set (x # xs))"
  by (rule Max.set_eq_fold [symmetric])

lemma total_bounds_encloses:
  assumes "total_bounds vectors = Some (minx, miny, maxx, maxy)"
    and "(x, y) \<in> set (all_vertices vectors)"
  shows "minx \<le> x \<and> x \<le> maxx \<and> miny \<le> y \<and> y \<le> maxy"
proof -
  from assms(1) obtain x0 y0 vs where v: "all_vertices vectors = (x0, y0) # vs"
    and b: "minx = Min (set (x0 # map fst vs))" "miny = Min (set (y0 # map snd vs))"
           "maxx = Max (set (x0 # map fst vs))" "maxy = Max (set (y0 # map snd vs))"
    by (auto simp: total_bounds_def fold_min_eq fold_max_eq split: list.splits prod.splits)
  have x: "x \<in> set (x0 # map fst vs)" and y: "y \<in> set (y0 # map snd vs)"
    using assms(2) v by force+
  show ?thesis unfolding b using x y by (simp only: Min_le Max_ge List.finite_set simp_thms)
qed

lemma total_bounds_attained:
  assumes "total_bounds vectors = Some (minx, miny, maxx, maxy)"
  shows "minx \<in> fst ` set (all_vertices vectors) \<and> maxx \<in> fst ` set (all_vertices vectors)
       \<and> miny \<in> snd ` set (all_vertices vectors) \<and> maxy \<in> snd ` set (all_vertices vectors)"
proof -
  from assms(1) obtain x0 y0 vs where v: "all_vertices vectors = (x0, y0) # vs"
    and b: "minx = Min (set (x0 # map fst vs))" "miny = Min (set (y0 # map snd vs))"
           "maxx = Max (set (x0 # map fst vs))" "maxy = Max (set (y0 # map snd vs))"
    by (auto simp: total_bounds_def fold_min_eq fold_max_eq split: list.splits prod.splits)
  have fx: "fst ` set (all_vertices vectors) = set (x0 # map fst vs)"
    and fy: "snd ` set (all_vertices vectors) = set (y0 # map snd vs)"
    by (simp_all add: v)
  have "Min (set (x0 # map fst vs)) \<in> set (x0 # map fst vs)"
       "Max (set (x0 # map fst vs)) \<in> set (x0 # map fst vs)"
       "Min (set (y0 # map snd vs)) \<in> set (y0 # map snd vs)"
       "Max (set (y0 # map snd vs)) \<in> set (y0 # map snd vs)"
    by (rule Min_in Max_in; simp)+
  then show ?thesis unfolding fx fy b by blast
qed

lemma extent_bbox_loaded:
  assumes "load_vector_data lib st b = (Inr vectors, st1)"
  shows "\<exists>bb. extent_bbox vectors = Some bb \<and> crs bb = gdf_crs vectors"
proof -
  from load_vector_data_Inr [OF assms] obtain f fs c g where
    "f_geometry f = Some (c, g)" "vectors = from_features (f # fs) c" by blast
  then have "all_vertices vectors \<noteq> []"
    by (simp add: all_vertices_def from_features_def)
  then show ?thesis
    by (auto simp: extent_bbox_def total_bounds_def split: list.splits)
qed

text \<open>
  Claim C10. When the feature iterator yields no feature, \<open>execute\<close> of the vector
  importer raises the \<open>IndexError\<close> of reading the first feature: it returns no patch,
  and the caller's patch and the task's \<open>dataset_crs\<close> are as they were.
\<close>

theorem no_features_index_error:
  assumes "feature_iterator lib
             (map_option (\<lambda>bb. transform_bounds lib bb POP_WEB)
                (resolve_bbox (caller_patch st) bbox_arg)) = []"
  shows "vector_execute task lib st bbox_arg = (Inl IndexError, st)"
  using assms by (simp add: vector_execute_def load_vector_data_def)

theorem no_features_index_error_witness:
  "feature_iterator (ex_vlib [])
     (map_option (\<lambda>bb. transform_bounds (ex_vlib []) bb POP_WEB)
        (resolve_bbox (caller_patch \<lparr>caller_patch = Some ex_patch_sq, dataset_crs = None\<rparr>) None)) = []
   \<and> vector_execute ex_vtask (ex_vlib []) \<lparr>caller_patch = Some ex_patch_sq, dataset_crs = None\<rparr> None
       = (Inl IndexError, \<lparr>caller_patch = Some ex_patch_sq, dataset_crs = None\<rparr>)"
proof -
  have h: "feature_iterator (ex_vlib [])
     (map_option (\<lambda>bb. transform_bounds (ex_vlib []) bb POP_WEB)
        (resolve_bbox (caller_patch \<lparr>caller_patch = Some ex_patch_sq, dataset_crs = None\<rparr>) None)) = []"
    by (simp add: ex_vlib_def)
  from no_features_index_error [OF h] h show ?thesis by simp
qed

lemma vector_execute_loaded:
  assumes "load_vector_data lib st (resolve_bbox (caller_patch st) bbox_arg) = (Inr vectors, st1)"
    and "(case resolve_bbox (caller_patch st) bbox_arg of
            Some bb \<Rightarrow> Some bb | None \<Rightarrow> extent_bbox vectors) = Some final_bbox"
    and "p1 = (case caller_patch st of
                 Some p \<Rightarrow> p | None \<Rightarrow> \<lparr>bbox = Some final_bbox, layers = Map.empty\<rparr>)"
    and "p2 = (if bbox p1 = None then p1\<lparr>bbox := Some final_bbox\<rparr> else p1)"
  shows "vector_execute task lib st bbox_arg =
           (case reproject_and_clip task lib vectors (resolve_bbox (caller_patch st) bbox_arg) of
              Inl e \<Rightarrow> (Inl e, st1\<lparr>caller_patch := map_option (\<lambda>_. p2) (caller_patch st)\<rparr>)
            | Inr vectors2 \<Rightarrow>
                (Inr (p2\<lparr>layers := (layers p2)(feature task \<mapsto> Frame vectors2)\<rparr>),
                 st1\<lparr>caller_patch :=
                       map_option (\<lambda>_. p2\<lparr>layers := (layers p2)(feature task \<mapsto> Frame vectors2)\<rparr>)
                         (caller_patch st)\<rparr>))"
  using assms by (simp add: vector_execute_def Let_def split: sum.splits)

lemma vector_execute_Inr:
  assumes "vector_execute task lib st bbox_arg = (Inr q, st')"
  shows "\<exists>vectors st1 final_bbox vectors2.
           load_vector_data lib st (resolve_bbox (caller_patch st) bbox_arg) = (Inr vectors, st1)
         \<and> (case resolve_bbox (caller_patch st) bbox_arg of
               Some bb \<Rightarrow> Some bb | None \<Rightarrow> extent_bbox vectors) = Some final_bbox
         \<and> reproject_and_clip task lib vectors (resolve_bbox (caller_patch st) bbox_arg)
             = Inr vectors2
         \<and> q = (let p1 = (case caller_patch st of
                            Some p \<Rightarrow> p
                          | None \<Rightarrow> \<lparr>bbox = Some final_bbox, layers = Map.empty\<rparr>);
                     p2 = (if bbox p1 = None then p1\<lparr>bbox := Some final_bbox\<rparr> else p1)
                 in p2\<lparr>layers := (layers p2)(feature task \<mapsto> Frame vectors2)\<rparr>)
         \<and> st' = st1\<lparr>caller_patch := map_option (\<lambda>_. q) (caller_patch st)\<rparr>"
proof -
  obtain r st1 where l: "load_vector_data lib st (resolve_bbox (caller_patch st) bbox_arg) = (r, st1)"
    by (cases "load_vector_data lib st (resolve_bbox (caller_patch st) bbox_arg)")
  from assms l obtain vectors where r: "r = Inr vectors"
    by (cases r) (auto simp: vector_execute_def Let_def)
  from extent_bbox_loaded [OF l [unfolded r]] obtain eb where eb: "extent_bbox vectors = Some eb"
    by blast
  define final_bbox where
    "final_bbox = (case resolve_bbox (caller_patch st) bbox_arg of Some bb \<Rightarrow> bb | None \<Rightarrow> eb)"
  have fb: "(case resolve_bbox (caller_patch st) bbox_arg of
               Some bb \<Rightarrow> Some bb | None \<Rightarrow> extent_bbox vectors) = Some final_bbox"
    by (simp add: final_bbox_def eb split: option.splits)
  note ex = vector_execute_loaded [OF l [unfolded r] fb refl refl, of task]
  from assms ex obtain vectors2 where
    v2: "reproject_and_clip task lib vectors (resolve_bbox (caller_patch st) bbox_arg) = Inr vectors2"
    by (cases "reproject_and_clip task lib vectors (resolve_bbox (caller_patch st) bbox_arg)") auto
  from assms ex v2 l r fb show ?thesis
    by (intro exI [of _ vectors] exI [of _ st1] exI [of _ final_bbox] exI [of _ vectors2])
       (auto simp: Let_def)
qed

text \<open>
  Claim C6, as amended. When the features were loaded (the iterator gave at least one
  feature and the first has a geometry): if \<open>reproject\<close> is enabled and the resolved
  bounding region is \<open>None\<close>, \<open>execute\<close> fails with \<open>MissingBoundingRegionError\<close>; if
  \<open>reproject\<close> is disabled, \<open>clip\<close> is enabled and the coordinate reference system of
  the geometries differs from that of the resolved bounding region, \<open>execute\<close> fails with
  \<open>CrsMismatchError\<close>. In both cases no patch is returned.
\<close>

theorem vector_precondition_errors:
  assumes "load_vector_data lib st (resolve_bbox (caller_patch st) bbox_arg) = (Inr vectors, st1)"
  shows "(reproject task \<and> resolve_bbox (caller_patch st) bbox_arg = None
            \<longrightarrow> fst (vector_execute task lib st bbox_arg) = Inl MissingBoundingRegionError)
       \<and> (\<forall>bb. \<not> reproject task \<and> clip task
                \<and> resolve_bbox (caller_patch st) bbox_arg = Some bb
                \<and> gdf_crs vectors \<noteq> crs bb
            \<longrightarrow> fst (vector_execute task lib st bbox_arg) = Inl CrsMismatchError)"
proof -
  from extent_bbox_loaded [OF assms] obtain eb where eb: "extent_bbox vectors = Some eb"
    by blast
  define final_bbox where
    "final_bbox = (case resolve_bbox (caller_patch st) bbox_arg of Some bb \<Rightarrow> bb | None \<Rightarrow> eb)"
  have fb: "(case resolve_bbox (caller_patch st) bbox_arg of
               Some bb \<Rightarrow> Some bb | None \<Rightarrow> extent_bbox vectors) = Some final_bbox"
    by (simp add: final_bbox_def eb split: option.splits)
  note ex = vector_execute_loaded [OF assms fb refl refl, of task]
  have a: "fst (vector_execute task lib st bbox_arg) = Inl MissingBoundingRegionError"
    if "reproject task" and "resolve_bbox (caller_patch st) bbox_arg = None"
    using that by (simp add: ex reproject_and_clip_def)
  have b: "fst (vector_execute task lib st bbox_arg) = Inl CrsMismatchError"
    if "\<not> reproject task" and "clip task"
      and "resolve_bbox (caller_patch st) bbox_arg = Some bb" and "gdf_crs vectors \<noteq> crs bb" for bb
    using that by (simp add: ex reproject_and_clip_def)
  from a b show ?thesis by blast
qed

theorem vector_precondition_errors_witness:
  "load_vector_data (ex_vlib ex_features) \<lparr>caller_patch = None, dataset_crs = None\<rparr>
     (resolve_bbox (caller_patch \<lparr>caller_patch = None, dataset_crs = None\<rparr>) None)
     = (Inr (from_features ex_features (EPSG 4326)), \<lparr>caller_patch = None, dataset_crs = Some (EPSG 4326)\<rparr>)
   \<and> reproject ex_vtask
   \<and> fst (vector_execute ex_vtask (ex_vlib ex_features)
            \<lparr>caller_patch = None, dataset_crs = None\<rparr> None) = Inl MissingBoundingRegionError
   \<and> load_vector_data (ex_vlib ex_features) \<lparr>caller_patch = None, dataset_crs = None\<rparr>
       (resolve_bbox (caller_patch \<lparr>caller_patch = None, dataset_crs = None\<rparr>) (Some ex_bbox_web))
       = (Inr (from_features ex_features (EPSG 4326)), \<lparr>caller_patch = None, dataset_crs = Some (EPSG 4326)\<rparr>)
   \<and> \<not> reproject ex_vtask_clip \<and> clip ex_vtask_clip
   \<and> gdf_crs (from_features ex_features (EPSG 4326)) \<noteq> crs ex_bbox_web
   \<and> fst (vector_execute ex_vtask_clip (ex_vlib ex_features)
            \<lparr>caller_patch = None, dataset_crs = None\<rparr> (Some ex_bbox_web)) = Inl CrsMismatchError"
proof -
  let ?st = "\<lparr>caller_patch = None, dataset_crs = None\<rparr>"
  let ?v = "from_features ex_features (EPSG 4326)"
  let ?st1 = "\<lparr>caller_patch = None, dataset_crs = Some (EPSG 4326)\<rparr>"
  have h1: "load_vector_data (ex_vlib ex_features) ?st (resolve_bbox (caller_patch ?st) None)
              = (Inr ?v, ?st1)"
    by (simp add: load_vector_data_def resolve_bbox_def ex_vlib_def ex_features_def)
  have h2: "load_vector_data (ex_vlib ex_features) ?st
              (resolve_bbox (caller_patch ?st) (Some ex_bbox_web)) = (Inr ?v, ?st1)"
    by (simp add: load_vector_data_def resolve_bbox_def ex_vlib_def ex_features_def)
  have r1: "reproject ex_vtask" and n1: "resolve_bbox (caller_patch ?st) None = None"
    by (simp_all add: ex_vtask_def resolve_bbox_def)
  have r2: "\<not> reproject ex_vtask_clip" and c2: "clip ex_vtask_clip"
    and b2: "resolve_bbox (caller_patch ?st) (Some ex_bbox_web) = Some ex_bbox_web"
    and d2: "gdf_crs ?v \<noteq> crs ex_bbox_web"
    by (simp_all add: ex_vtask_clip_def resolve_bbox_def from_features_def ex_bbox_web_def)
  have e1: "fst (vector_execute ex_vtask (ex_vlib ex_features) ?st None)
              = Inl MissingBoundingRegionError"
    using vector_precondition_errors [OF h1, of ex_vtask] r1 n1 by blast
  have e2: "fst (vector_execute ex_vtask_clip (ex_vlib ex_features) ?st (Some ex_bbox_web))
              = Inl CrsMismatchError"
    using vector_precondition_errors [OF h2, of ex_vtask_clip] r2 c2 b2 d2 by blast
  from h1 h2 r1 r2 c2 d2 e1 e2 show ?thesis by blast
qed

text \<open>
  The claim as first stated, without the condition on loading, fails when the iterator
  yields nothing: the error is the \<open>IndexError\<close> of reading the first feature.
\<close>

theorem reproject_without_features_index_error:
  "reproject ex_vtask
   \<and> resolve_bbox None None = None
   \<and> fst (vector_execute ex_vtask (ex_vlib []) \<lparr>caller_patch = None, dataset_crs = None\<rparr> None)
       = Inl IndexError
   \<and> fst (vector_execute ex_vtask (ex_vlib []) \<lparr>caller_patch = None, dataset_crs = None\<rparr> None)
       \<noteq> Inl MissingBoundingRegionError"
  by (simp add: vector_eval ex_vtask_def ex_vlib_def)

text \<open>
  Claim C7. When the vector importer is called with no patch and no bounding region and
  returns a patch, the bounding region of the patch is the box of the total bounds of
  the fetched geometries, which encloses every vertex and touches one on each side,
  tagged with the coordinate reference system of the dataset (that of the first
  feature); and the patch holds one layer, the configured one, whose rows are the fetched
  features in order.
\<close>

theorem full_extent_patch:
  assumes "vector_execute task lib \<lparr>caller_patch = None, dataset_crs = d\<rparr> None = (Inr p, st')"
  shows "\<exists>f fs c g b.
           feature_iterator lib None = f # fs \<and> f_geometry f = Some (c, g)
         \<and> bbox p = Some b \<and> crs b = c
         \<and> total_bounds (from_features (f # fs) c) = Some (min_x b, min_y b, max_x b, max_y b)
         \<and> (\<forall>(x, y) \<in> set (all_vertices (from_features (f # fs) c)).
               min_x b \<le> x \<and> x \<le> max_x b \<and> min_y b \<le> y \<and> y \<le> max_y b)
         \<and> min_x b \<in> fst ` set (all_vertices (from_features (f # fs) c))
         \<and> max_x b \<in> fst ` set (all_vertices (from_features (f # fs) c))
         \<and> min_y b \<in> snd ` set (all_vertices (from_features (f # fs) c))
         \<and> max_y b \<in> snd ` set (all_vertices (from_features (f # fs) c))
         \<and> layers p = [feature task \<mapsto> Frame (from_features (f # fs) c)]
         \<and> map r_geometry (rows (from_features (f # fs) c))
             = map (\<lambda>f. map_option snd (f_geometry f)) (f # fs)
         \<and> map r_properties (rows (from_features (f # fs) c)) = map f_properties (f # fs)"
proof -
  let ?st = "\<lparr>caller_patch = None, dataset_crs = d\<rparr>"
  have rb: "resolve_bbox (caller_patch ?st) None = None" by (simp add: resolve_bbox_def)
  from vector_execute_Inr [OF assms] rb obtain vectors st1 final_bbox vectors2 where
    l: "load_vector_data lib ?st None = (Inr vectors, st1)"
    and fb: "extent_bbox vectors = Some final_bbox"
    and rc: "reproject_and_clip task lib vectors None = Inr vectors2"
    and p: "p = \<lparr>bbox = Some final_bbox, layers = [feature task \<mapsto> Frame vectors2]\<rparr>"
    by (auto simp: Let_def)
  from load_vector_data_Inr [OF l] obtain f fs c g where
    it: "feature_iterator lib None = f # fs" and g: "f_geometry f = Some (c, g)"
    and v: "vectors = from_features (f # fs) c"
    by auto
  have v2: "vectors2 = vectors"
    using rc by (auto simp: reproject_and_clip_def split: if_splits)
  have c: "crs final_bbox = c"
    using fb v by (auto simp: extent_bbox_def from_features_def split: option.splits)
  have tb: "total_bounds vectors
              = Some (min_x final_bbox, min_y final_bbox, max_x final_bbox, max_y final_bbox)"
    using fb by (auto simp: extent_bbox_def split: option.splits)
  have enc: "\<forall>(x, y) \<in> set (all_vertices vectors).
               min_x final_bbox \<le> x \<and> x \<le> max_x final_bbox
               \<and> min_y final_bbox \<le> y \<and> y \<le> max_y final_bbox"
    using total_bounds_encloses [OF tb] by blast
  have att: "min_x final_bbox \<in> fst ` set (all_vertices vectors)"
            "max_x final_bbox \<in> fst ` set (all_vertices vectors)"
            "min_y final_bbox \<in> snd ` set (all_vertices vectors)"
            "max_y final_bbox \<in> snd ` set (all_vertices vectors)"
    using total_bounds_attained [OF tb] by blast+
  have rows: "map r_geometry (rows vectors) = map (\<lambda>f. map_option snd (f_geometry f)) (f # fs)"
             "map r_properties (rows vectors) = map f_properties (f # fs)"
    by (simp_all add: v from_features_def)
  from it g p c tb enc att rows show ?thesis
    unfolding v2 v
    by (intro exI [of _ f] exI [of _ fs] exI [of _ c] exI [of _ g] exI [of _ final_bbox]) simp
qed

theorem full_extent_patch_witness:
  "vector_execute ex_vtask_plain (ex_vlib ex_features) \<lparr>caller_patch = None, dataset_crs = None\<rparr> None
     = (Inr ex_patch_land, \<lparr>caller_patch = None, dataset_crs = Some (EPSG 4326)\<rparr>)
   \<and> (\<exists>b. bbox ex_patch_land = Some b \<and> crs b = EPSG 4326
          \<and> total_bounds (from_features ex_features (EPSG 4326))
              = Some (min_x b, min_y b, max_x b, max_y b)
          \<and> layers ex_patch_land (feature ex_vtask_plain)
              = Some (Frame (from_features ex_features (EPSG 4326))))"
proof -
  let ?st' = "\<lparr>caller_patch = None, dataset_crs = Some (EPSG 4326)\<rparr>"
  have h: "vector_execute ex_vtask_plain (ex_vlib ex_features)
             \<lparr>caller_patch = None, dataset_crs = None\<rparr> None = (Inr ex_patch_land, ?st')"
    by (simp add: vector_eval ex_vtask_plain_def ex_vlib_def ex_features_def ex_patch_land_def
        ex_bbox_def)
  from full_extent_patch [OF h] obtain f fs c g b where
    it: "feature_iterator (ex_vlib ex_features) None = f # fs"
    and g: "f_geometry f = Some (c, g)"
    and b: "bbox ex_patch_land = Some b" "crs b = c"
    and tb: "total_bounds (from_features (f # fs) c) = Some (min_x b, min_y b, max_x b, max_y b)"
    and l: "layers ex_patch_land = [feature ex_vtask_plain \<mapsto> Frame (from_features (f # fs) c)]"
    by blast
  have fs: "f # fs = ex_features" using it by (simp add: ex_vlib_def)
  have c: "c = EPSG 4326" using g fs by (auto simp: ex_features_def)
  from h b tb l show ?thesis unfolding fs c by simp
qed

section \<open>What an execution changes in the patch\<close>

text \<open>
  Claim C9, as amended. A successful \<open>execute\<close> of the raster importer leaves the
  bounding region of the patch and every layer other than the configured one as they
  were. A successful \<open>execute\<close> of the vector importer on a supplied patch returns that
  patch object with every layer other than the configured one as it was; the bounding
  region is as it was when the patch had one, and when it had none it is assigned: the
  bounding region given as argument, or else the extent of the fetched geometries.
\<close>

theorem only_target_layer_and_missing_bbox_change:
  "(execute task lib eopatch = Inr p'
      \<longrightarrow> bbox p' = bbox eopatch
          \<and> (\<forall>k. k \<noteq> (feature_type task, feature_name task) \<longrightarrow> layers p' k = layers eopatch k))
   \<and> (vector_execute vtask vlib \<lparr>caller_patch = Some eopatch, dataset_crs = d\<rparr> bbox_arg
        = (Inr q', st')
      \<longrightarrow> caller_patch st' = Some q'
          \<and> (\<forall>k. k \<noteq> feature vtask \<longrightarrow> layers q' k = layers eopatch k)
          \<and> (bbox eopatch \<noteq> None \<longrightarrow> bbox q' = bbox eopatch)
          \<and> (bbox eopatch = None \<and> bbox_arg \<noteq> None \<longrightarrow> bbox q' = bbox_arg)
          \<and> (bbox eopatch = None \<and> bbox_arg = None
                \<longrightarrow> bbox q' \<noteq> None
                    \<and> (\<exists>vectors st1.
                          load_vector_data vlib \<lparr>caller_patch = Some eopatch, dataset_crs = d\<rparr>
                            None = (Inr vectors, st1)
                          \<and> bbox q' = extent_bbox vectors)))"
proof -
  let ?st = "\<lparr>caller_patch = Some eopatch, dataset_crs = d\<rparr>"
  have raster: "bbox p' = bbox eopatch
      \<and> (\<forall>k. k \<noteq> (feature_type task, feature_name task) \<longrightarrow> layers p' k = layers eopatch k)"
    if "execute task lib eopatch = Inr p'"
    using that by (auto simp: execute_def set_array_layer_def split: sum.splits if_splits)
  have vector: "caller_patch st' = Some q'
      \<and> (\<forall>k. k \<noteq> feature vtask \<longrightarrow> layers q' k = layers eopatch k)
      \<and> (bbox eopatch \<noteq> None \<longrightarrow> bbox q' = bbox eopatch)
      \<and> (bbox eopatch = None \<and> bbox_arg \<noteq> None \<longrightarrow> bbox q' = bbox_arg)
      \<and> (bbox eopatch = None \<and> bbox_arg = None
            \<longrightarrow> bbox q' \<noteq> None
                \<and> (\<exists>vectors st1. load_vector_data vlib ?st None = (Inr vectors, st1)
                      \<and> bbox q' = extent_bbox vectors))"
    if "vector_execute vtask vlib ?st bbox_arg = (Inr q', st')"
  proof -
    from vector_execute_Inr [OF that] obtain vectors st1 final_bbox vectors2 where
      l: "load_vector_data vlib ?st (resolve_bbox (caller_patch ?st) bbox_arg)
            = (Inr vectors, st1)"
      and fb: "(case resolve_bbox (caller_patch ?st) bbox_arg of
                  Some bb \<Rightarrow> Some bb | None \<Rightarrow> extent_bbox vectors) = Some final_bbox"
      and q0: "q' = (let p1 = (case caller_patch ?st of
                                Some p \<Rightarrow> p
                              | None \<Rightarrow> \<lparr>bbox = Some final_bbox, layers = Map.empty\<rparr>);
                         p2 = (if bbox p1 = None then p1\<lparr>bbox := Some final_bbox\<rparr> else p1)
                     in p2\<lparr>layers := (layers p2)(feature vtask \<mapsto> Frame vectors2)\<rparr>)"
      and st0: "st' = st1\<lparr>caller_patch := map_option (\<lambda>_. q') (caller_patch ?st)\<rparr>"
      by blast
    have q: "q' = (if bbox eopatch = None then eopatch\<lparr>bbox := Some final_bbox\<rparr> else eopatch)
                    \<lparr>layers := (layers eopatch)(feature vtask \<mapsto> Frame vectors2)\<rparr>"
      using q0 by (simp add: Let_def)
    have st: "caller_patch st' = Some q'" using st0 by simp
    have given: "Some final_bbox = bbox_arg" if "bbox_arg \<noteq> None"
      using fb that by (auto simp: resolve_bbox_def)
    have extent: "\<exists>vectors st1. load_vector_data vlib ?st None = (Inr vectors, st1)
                    \<and> Some final_bbox = extent_bbox vectors"
      if "bbox eopatch = None" and "bbox_arg = None"
      using l fb that by (auto simp: resolve_bbox_def)
    from q st given extent show ?thesis by auto
  qed
  from raster vector show ?thesis by blast
qed

theorem only_target_layer_and_missing_bbox_change_witness:
  "execute ex_task (ex_lib ex_tile_sq) ex_patch_sq = Inr ex_patch_sq_raster
   \<and> vector_execute ex_vtask (ex_vlib ex_features)
        \<lparr>caller_patch = Some ex_patch_sq, dataset_crs = None\<rparr> None
       = (Inr ex_patch_sq_vector,
          \<lparr>caller_patch = Some ex_patch_sq_vector, dataset_crs = Some (EPSG 4326)\<rparr>)
   \<and> bbox ex_patch_sq_raster = bbox ex_patch_sq
   \<and> layers ex_patch_sq_raster (MASK, ''IS_DATA'') = layers ex_patch_sq (MASK, ''IS_DATA'')
   \<and> bbox ex_patch_sq_vector = bbox ex_patch_sq
   \<and> layers ex_patch_sq_vector (MASK_TIMELESS, ''LULC'')
       = layers ex_patch_sq (MASK_TIMELESS, ''LULC'')"
proof -
  let ?st' = "\<lparr>caller_patch = Some ex_patch_sq_vector, dataset_crs = Some (EPSG 4326)\<rparr>"
  have h1: "execute ex_task (ex_lib ex_tile_sq) ex_patch_sq = Inr ex_patch_sq_raster"
    by (simp add: raster_eval ex_patch_sq_raster_def ex_patch_sq_def ex_task_def ex_lib_def
        ex_tile_sq_def upt_rec)
  have h2: "vector_execute ex_vtask (ex_vlib ex_features)
              \<lparr>caller_patch = Some ex_patch_sq, dataset_crs = None\<rparr> None
            = (Inr ex_patch_sq_vector, ?st')"
    by (simp add: vector_eval ex_patch_sq_vector_def ex_vtask_def ex_vlib_def ex_features_def
        ex_patch_sq_def ex_bbox_def)
  have k1: "(MASK, ''IS_DATA'') \<noteq> (feature_type ex_task, feature_name ex_task)"
    by (simp add: ex_task_def)
  have k2: "(MASK_TIMELESS, ''LULC'') \<noteq> feature ex_vtask"
    by (simp add: ex_vtask_def)
  have b: "bbox ex_patch_sq \<noteq> None" by (simp add: ex_patch_sq_def)
  from only_target_layer_and_missing_bbox_change
         [of ex_task "ex_lib ex_tile_sq" ex_patch_sq ex_patch_sq_raster
             ex_vtask "ex_vlib ex_features" None None ex_patch_sq_vector ?st']
       h1 h2 k1 k2 b
  show ?thesis by blast
qed

text \<open>
  The claim as first stated, that nothing but the target layer changes, fails for the
  vector importer on a patch without bounding region: the patch is given one.
\<close>

theorem vector_import_assigns_bbox:
  "bbox ex_patch_nobbox = None
   \<and> map_sum id bbox
       (fst (vector_execute ex_vtask (ex_vlib ex_features)
               \<lparr>caller_patch = Some ex_patch_nobbox, dataset_crs = None\<rparr> (Some ex_bbox)))
       = Inr (Some ex_bbox)"
  by (simp add: vector_eval ex_vtask_def ex_vlib_def ex_features_def ex_patch_nobbox_def)

end
